theory Spec2Isabelle
  imports Main "HOL-Library.Sublist"
begin

section \<open>Strings of the worker\<close>

text \<open>
  The worker of \<^verbatim>\<open>src/assets/stomp-worker-enhanced.js\<close> handles frame bodies with
  \<^verbatim>\<open>trim\<close>, \<^verbatim>\<open>toLowerCase\<close> and \<^verbatim>\<open>includes\<close>. Strings are modelled as lists of
  8-bit characters holding ASCII text: white space is the ASCII part of ECMAScript's
  WhiteSpace and LineTerminator (TAB, LF, VT, FF, CR, SP), and case folding maps the
  letters A-Z to a-z. \<^verbatim>\<open>length\<close> counts characters.
\<close>

definition isWhiteSpace :: "char \<Rightarrow> bool" where
  "isWhiteSpace c =
     (c = CHR 0x09 \<or> c = CHR 0x0A \<or> c = CHR 0x0B \<or> c = CHR 0x0C \<or> c = CHR 0x0D \<or> c = CHR 0x20)"

definition trim :: "string \<Rightarrow> string" where
  "trim s = rev (dropWhile isWhiteSpace (rev (dropWhile isWhiteSpace s)))"

definition toLowerCaseChar :: "char \<Rightarrow> char" where
  "toLowerCaseChar c =
     (let n = (of_char c :: nat) in if 65 \<le> n \<and> n \<le> 90 then char_of (n + 32) else c)"

definition toLowerCase :: "string \<Rightarrow> string" where
  "toLowerCase s = map toLowerCaseChar s"

text \<open>\<^verbatim>\<open>body.includes(needle)\<close>: the needle occurs as a contiguous part of the body.\<close>

definition includes_str :: "string \<Rightarrow> string \<Rightarrow> bool" where
  "includes_str body needle = sublist needle body"

section \<open>Provider configuration\<close>

text \<open>
  The configuration object a consumer sends with its connect request. A field that
  is absent (\<^verbatim>\<open>undefined\<close> or \<^verbatim>\<open>null\<close>) is \<open>None\<close>. The source tests the fields for
  truthiness, so the empty string and the number zero count as absent there.
\<close>

record ProviderConfig =
  websocketUrl :: string
  dataType :: "string option"
  messageRate :: "nat option"
  batchSize :: "nat option"
  snapshotEndToken :: "string option"
  keyColumn :: "string option"

text \<open>
  \<^verbatim>\<open>ProviderConnection.isEndToken\<close>: false when no end token is configured; otherwise
  the trimmed, lower-cased body is searched for the lower-cased token and for the
  literal \<^verbatim>\<open>success\<close>.
\<close>

definition isEndToken :: "ProviderConfig \<Rightarrow> string \<Rightarrow> bool" where
  "isEndToken cfg messageBody =
     (case snapshotEndToken cfg of
        None \<Rightarrow> False
      | Some tok \<Rightarrow>
          if tok = [] then False
          else
            (let trimmedBody = toLowerCase (trim messageBody);
                 endToken = toLowerCase tok
             in includes_str trimmedBody endToken \<or> includes_str trimmedBody ''success''))"

section \<open>Parsed JSON values\<close>

text \<open>
  The value \<^verbatim>\<open>JSON.parse\<close> returns. Numbers are IEEE doubles on the platform; the
  model keeps their type abstract (the parameter \<open>'n\<close>). An object is the list of its
  members in source order; a later member with the same name replaces an earlier one.
\<close>

datatype 'n json =
    JNull
  | JBool bool
  | JNum 'n
  | JStr string
  | JArr "'n json list"
  | JObj "(string \<times> 'n json) list"

text \<open>
  What the worker takes from its platform: \<^verbatim>\<open>JSON.parse\<close> (\<open>None\<close> when it throws a
  SyntaxError), the conversion of a number to a string, the members that the values
  of each kind inherit from their prototypes, and whether the script
  \<^verbatim>\<open>stomp.umd.min.js\<close> was loaded, so that \<^verbatim>\<open>StompJs\<close> is defined.

  The inherited members are the methods of \<^verbatim>\<open>Object.prototype\<close>, \<^verbatim>\<open>Array.prototype\<close>,
  \<^verbatim>\<open>String.prototype\<close>, \<^verbatim>\<open>Number.prototype\<close> and \<^verbatim>\<open>Boolean.prototype\<close>, with
  \<^verbatim>\<open>constructor\<close> and \<^verbatim>\<open>__proto__\<close>. Which names they are depends on the edition of
  the language, and the text that \<^verbatim>\<open>String\<close> makes of a built-in function on the
  engine. None of them is \<^verbatim>\<open>undefined\<close> or \<^verbatim>\<open>null\<close>, and \<^verbatim>\<open>String\<close> throws on none:
  \<open>inherited pf kind name\<close> is \<open>Some s\<close> when the values of that kind inherit a
  member of that name, \<open>s\<close> being the string \<^verbatim>\<open>String\<close> makes of it.
\<close>

datatype value_kind = Kind_boolean | Kind_number | Kind_string | Kind_array | Kind_object

record 'n platform =
  JSON_parse :: "string \<Rightarrow> 'n json option"
  Number_toString :: "'n \<Rightarrow> string"
  inherited :: "value_kind \<Rightarrow> string \<Rightarrow> string option"
  StompJs_loaded :: bool

datatype js_error =
    TypeError string
  | ReferenceError string
  | Error string

text \<open>The decimal numeral of a natural number, as \<^verbatim>\<open>String\<close> and a template literal write it.\<close>

fun decimal :: "nat \<Rightarrow> string" where
  "decimal n =
     (if n < 10 then [char_of (48 + n)] else decimal (n div 10) @ [char_of (48 + n mod 10)])"

declare decimal.simps [simp del]

text \<open>
  The value of a property access on a parsed value: \<^verbatim>\<open>undefined\<close>, a parsed value (a
  member of an object, an element of an array, a character of a string), or a value
  that \<^verbatim>\<open>JSON.parse\<close> does not produce (a length, a built-in function, a prototype),
  which is kept as the string \<^verbatim>\<open>String\<close> makes of it.
\<close>

datatype 'n property =
    Undefined
  | Member "'n json"
  | Builtin string

definition from_prototype ::
  "(value_kind \<Rightarrow> string \<Rightarrow> string option) \<Rightarrow> value_kind \<Rightarrow> string \<Rightarrow> 'n property" where
  "from_prototype inh kind k = (case inh kind k of None \<Rightarrow> Undefined | Some s \<Rightarrow> Builtin s)"

text \<open>
  The index a property name denotes in an array or a string of length \<open>n\<close>: the name
  is the decimal numeral of a number below \<open>n\<close>.
\<close>

definition index_of :: "string \<Rightarrow> nat \<Rightarrow> nat option" where
  "index_of k n = find (\<lambda>i. decimal i = k) [0..<n]"

text \<open>
  \<^verbatim>\<open>update[keyColumn]\<close>. Reading a property of \<^verbatim>\<open>null\<close> throws a TypeError. An object
  yields its own member of that name (the last one, when the text repeated the
  name); an array and a string yield their \<^verbatim>\<open>length\<close>, and the element or the
  character at an index. Every other name is looked up in the prototypes of the
  value, and yields \<^verbatim>\<open>undefined\<close> when they have no such member.
\<close>

fun getProperty ::
  "(value_kind \<Rightarrow> string \<Rightarrow> string option) \<Rightarrow> 'n json \<Rightarrow> string \<Rightarrow> js_error + 'n property" where
  "getProperty inh JNull k =
     Inl (TypeError (''Cannot read properties of null (reading '' @ [CHR 0x27] @ k @ [CHR 0x27] @ '')''))"
| "getProperty inh (JBool b) k = Inr (from_prototype inh Kind_boolean k)"
| "getProperty inh (JNum n) k = Inr (from_prototype inh Kind_number k)"
| "getProperty inh (JStr s) k =
     Inr (if k = ''length'' then Builtin (decimal (length s))
          else case index_of k (length s) of
                 Some i \<Rightarrow> Member (JStr [s ! i])
               | None \<Rightarrow> from_prototype inh Kind_string k)"
| "getProperty inh (JArr xs) k =
     Inr (if k = ''length'' then Builtin (decimal (length xs))
          else case index_of k (length xs) of
                 Some i \<Rightarrow> Member (xs ! i)
               | None \<Rightarrow> from_prototype inh Kind_array k)"
| "getProperty inh (JObj ms) k =
     Inr (case map_of (rev ms) k of
            Some v \<Rightarrow> Member v
          | None \<Rightarrow> from_prototype inh Kind_object k)"

fun join :: "string \<Rightarrow> string list \<Rightarrow> string" where
  "join sep [] = []"
| "join sep [s] = s"
| "join sep (s # t # ss) = s @ sep @ join sep (t # ss)"

text \<open>The strings of the elements of an array, up to the first conversion that throws.\<close>

fun collect_strings :: "(js_error + string) list \<Rightarrow> js_error + string list" where
  "collect_strings [] = Inr []"
| "collect_strings (r # rs) =
     (case r of
        Inl e \<Rightarrow> Inl e
      | Inr s \<Rightarrow> (case collect_strings rs of Inl e \<Rightarrow> Inl e | Inr ss \<Rightarrow> Inr (s # ss)))"

text \<open>
  \<^verbatim>\<open>String(key)\<close> on a parsed value. An object is converted by the method \<^verbatim>\<open>toString\<close>
  it inherits; when it has a member of its own named \<^verbatim>\<open>toString\<close>, which is no
  function, the conversion finds no method that yields a primitive value (the
  inherited \<^verbatim>\<open>valueOf\<close> returns the object) and throws a TypeError. An array is
  converted by \<^verbatim>\<open>join\<close>, which converts each element in turn and writes nothing for
  \<^verbatim>\<open>null\<close>.
\<close>

fun String_of :: "('n \<Rightarrow> string) \<Rightarrow> 'n json \<Rightarrow> js_error + string" where
  "String_of ns JNull = Inr ''null''"
| "String_of ns (JBool b) = Inr (if b then ''true'' else ''false'')"
| "String_of ns (JNum n) = Inr (ns n)"
| "String_of ns (JStr s) = Inr s"
| "String_of ns (JArr xs) =
     (case collect_strings (map (\<lambda>x. case x of JNull \<Rightarrow> Inr [] | _ \<Rightarrow> String_of ns x) xs) of
        Inl e \<Rightarrow> Inl e
      | Inr ss \<Rightarrow> Inr (join '','' ss))"
| "String_of ns (JObj ms) =
     (if ''toString'' \<in> fst ` set ms
      then Inl (TypeError ''Cannot convert object to primitive value'')
      else Inr ''[object Object]'')"

section \<open>The provider connection\<close>

datatype session_mode = Mode_idle | Mode_snapshot | Mode_realtime

record statistics =
  snapshotRowsReceived :: nat
  updateRowsReceived :: nat
  connectionCount :: nat
  disconnectionCount :: nat
  isConnected :: bool
  bytesReceived :: nat
  mode :: session_mode

text \<open>
  The STOMP client \<^verbatim>\<open>connect()\<close> creates, with the three values its callbacks close
  over.
\<close>

record client =
  clientId :: string
  listenerTopic :: string
  triggerDestination :: string

text \<open>
  A \<^verbatim>\<open>MessagePort\<close> is an opaque handle. The two \<^verbatim>\<open>Map\<close>s of a provider keep their
  entries in insertion order, as a JavaScript \<^verbatim>\<open>Map\<close> does. Times are the
  milliseconds \<^verbatim>\<open>Date.now()\<close> returns.
\<close>

type_synonym port = nat

record 'n ProviderConnection =
  providerId :: string
  config :: ProviderConfig
  snapshot :: "(string \<times> 'n json) list"
  lastUpdate :: nat
  subscribers :: "(string \<times> port) list"
  connection :: "client option"
  subscription :: "string option"
  statistics :: statistics
  isConnecting :: bool
  isSnapshotComplete :: bool
  snapshotStartTime :: nat

definition new_ProviderConnection :: "nat \<Rightarrow> string \<Rightarrow> ProviderConfig \<Rightarrow> 'n ProviderConnection" where
  "new_ProviderConnection now pid cfg =
     \<lparr> providerId = pid, config = cfg, snapshot = [], lastUpdate = now, subscribers = [],
       connection = None, subscription = None,
       statistics = \<lparr> snapshotRowsReceived = 0, updateRowsReceived = 0, connectionCount = 0,
                      disconnectionCount = 0, isConnected = False, bytesReceived = 0,
                      mode = Mode_idle \<rparr>,
       isConnecting = False, isSnapshotComplete = False, snapshotStartTime = 0 \<rparr>"

text \<open>\<^verbatim>\<open>Map.prototype.set\<close>: an existing key keeps its place and gets the new value.\<close>

fun Map_set :: "'k \<Rightarrow> 'v \<Rightarrow> ('k \<times> 'v) list \<Rightarrow> ('k \<times> 'v) list" where
  "Map_set k v [] = [(k, v)]"
| "Map_set k v ((k', v') # kvs) =
     (if k = k' then (k, v) # kvs else (k', v') # Map_set k v kvs)"

definition Map_values :: "('k \<times> 'v) list \<Rightarrow> 'v list" where
  "Map_values m = map snd m"

definition Map_size :: "('k \<times> 'v) list \<Rightarrow> nat" where
  "Map_size m = length m"

text \<open>The messages the worker posts to a port, one constructor for each shape.\<close>

datatype 'n response_body =
    Success_true
  | Data_body "'n json list"
  | Statistics_body "statistics option"

datatype 'n message =
    Connected string string
  | Disconnected string
  | Data string "'n json list" bool
  | SnapshotComplete string nat int
  | ErrorEvent string string
  | Response string "'n response_body"
  | ErrorResponse string string

text \<open>The \<^verbatim>\<open>id\<close> and \<^verbatim>\<open>error\<close> fields of a posted message (\<open>None\<close>: the field is absent).\<close>

fun message_id :: "'n message \<Rightarrow> string option" where
  "message_id (Response i b) = Some i"
| "message_id (ErrorResponse i e) = Some i"
| "message_id m = None"

fun message_error :: "'n message \<Rightarrow> string option" where
  "message_error (ErrorEvent pid e) = Some e"
| "message_error (ErrorResponse i e) = Some e"
| "message_error m = None"

text \<open>
  What a handler does to the world outside the worker's own state: messages posted
  to ports and calls on the STOMP client.
\<close>

datatype 'n effect =
    PostMessage port "'n message"
  | Activate string client
  | Subscribe client string
  | Publish client string string
  | Unsubscribe string
  | Deactivate client

fun error_message :: "js_error \<Rightarrow> string" where
  "error_message (TypeError m) = m"
| "error_message (ReferenceError m) = m"
| "error_message (Error m) = m"

text \<open>\<^verbatim>\<open>x || d\<close> on an optional string and on an optional number.\<close>

definition or_default :: "string option \<Rightarrow> string \<Rightarrow> string" where
  "or_default x d = (case x of None \<Rightarrow> d | Some s \<Rightarrow> if s = [] then d else s)"

definition or_default_num :: "nat option \<Rightarrow> nat \<Rightarrow> nat" where
  "or_default_num x d = (case x of None \<Rightarrow> d | Some n \<Rightarrow> if n = 0 then d else n)"

text \<open>
  \<^verbatim>\<open>generateClientId\<close>: the clock and the four characters drawn from
  \<^verbatim>\<open>Math.random()\<close> are inputs.
\<close>

definition generateClientId :: "nat \<Rightarrow> string \<Rightarrow> string" where
  "generateClientId timestamp random = ''stomp-'' @ decimal timestamp @ ''-'' @ random"

definition buildTriggerDestination :: "ProviderConfig \<Rightarrow> string \<Rightarrow> string" where
  "buildTriggerDestination cfg cid =
     (let dataType' = or_default (dataType cfg) ''positions'';
          rate = or_default_num (messageRate cfg) 1000;
          destination = ''/snapshot/'' @ dataType' @ ''/'' @ cid @ ''/'' @ decimal rate
      in case batchSize cfg of
           None \<Rightarrow> destination
         | Some b \<Rightarrow> if b = 0 then destination else destination @ ''/'' @ decimal b)"

definition buildListenerTopic :: "ProviderConfig \<Rightarrow> string \<Rightarrow> string" where
  "buildListenerTopic cfg cid =
     ''/snapshot/'' @ or_default (dataType cfg) ''positions'' @ ''/'' @ cid"

text \<open>
  \<^verbatim>\<open>broadcast\<close>: one \<^verbatim>\<open>postMessage\<close> for each subscriber, in the order of the
  \<^verbatim>\<open>Map\<close>. Posting plain data to a port does not throw, so the branch that removes
  a dead port is not taken.
\<close>

definition broadcast :: "'n ProviderConnection \<Rightarrow> 'n message \<Rightarrow> 'n effect list" where
  "broadcast p m = map (\<lambda>(portId, port). PostMessage port m) (subscribers p)"

definition getSnapshot :: "'n ProviderConnection \<Rightarrow> 'n json list" where
  "getSnapshot p = Map_values (snapshot p)"

text \<open>
  The body of the \<^verbatim>\<open>forEach\<close> of \<^verbatim>\<open>applyUpdatesToSnapshot\<close>, up to the call of
  \<^verbatim>\<open>set\<close>: the key is read from the record and, unless it is \<^verbatim>\<open>undefined\<close> or
  \<^verbatim>\<open>null\<close>, made a string. The result is the exception thrown on the way, or the
  string under which the record is to be stored (\<open>None\<close> when it is skipped).
\<close>

definition read_key :: "'n platform \<Rightarrow> string \<Rightarrow> 'n json \<Rightarrow> js_error + string option" where
  "read_key pf kc update =
     (case getProperty (inherited pf) update kc of
        Inl e \<Rightarrow> Inl e
      | Inr Undefined \<Rightarrow> Inr None
      | Inr (Builtin s) \<Rightarrow> Inr (Some s)
      | Inr (Member key) \<Rightarrow>
          (case key of
             JNull \<Rightarrow> Inr None
           | _ \<Rightarrow> (case String_of (Number_toString pf) key of
                     Inl e \<Rightarrow> Inl e
                   | Inr s \<Rightarrow> Inr (Some s))))"

text \<open>
  The \<^verbatim>\<open>forEach\<close> itself. When reading a key throws, the loop stops and the records
  stored so far stay: the result carries the error and the cache at that point.
\<close>

fun forEach_update ::
  "'n platform \<Rightarrow> string \<Rightarrow> 'n json list \<Rightarrow> (string \<times> 'n json) list
     \<Rightarrow> js_error option \<times> (string \<times> 'n json) list" where
  "forEach_update pf kc [] m = (None, m)"
| "forEach_update pf kc (update # updates) m =
     (case read_key pf kc update of
        Inl e \<Rightarrow> (Some e, m)
      | Inr None \<Rightarrow> forEach_update pf kc updates m
      | Inr (Some key) \<Rightarrow> forEach_update pf kc updates (Map_set key update m))"

definition applyUpdatesToSnapshot ::
  "'n platform \<Rightarrow> nat \<Rightarrow> 'n json list \<Rightarrow> 'n ProviderConnection
     \<Rightarrow> js_error option \<times> 'n ProviderConnection" where
  "applyUpdatesToSnapshot pf now updates p =
     (let kc = or_default (keyColumn (config p)) ''positionId'';
          r = forEach_update pf kc updates (snapshot p)
      in case fst r of
           Some e \<Rightarrow> (Some e, p\<lparr>snapshot := snd r\<rparr>)
         | None \<Rightarrow> (None, p\<lparr>snapshot := snd r, lastUpdate := now\<rparr>))"

text \<open>
  \<^verbatim>\<open>Array.isArray(data) ? data : [data]\<close>, and the row counter of the current phase.
\<close>

definition positions_of :: "'n json \<Rightarrow> 'n json list" where
  "positions_of data = (case data of JArr xs \<Rightarrow> xs | _ \<Rightarrow> [data])"

definition count_rows :: "nat \<Rightarrow> 'n ProviderConnection \<Rightarrow> 'n ProviderConnection" where
  "count_rows n p =
     (let st = statistics p
      in if isSnapshotComplete p
         then p\<lparr>statistics := st\<lparr>updateRowsReceived := updateRowsReceived st + n\<rparr>\<rparr>
         else p\<lparr>statistics := st\<lparr>snapshotRowsReceived := snapshotRowsReceived st + n\<rparr>\<rparr>)"

text \<open>
  \<^verbatim>\<open>handleMessage\<close>, the handler of a frame of the feed. The result is the provider
  after the frame and what was posted. An exception inside the handler is caught
  there and broadcast as an \<^verbatim>\<open>error\<close> event.
\<close>

definition handleMessage ::
  "'n platform \<Rightarrow> nat \<Rightarrow> string \<Rightarrow> 'n ProviderConnection
     \<Rightarrow> 'n ProviderConnection \<times> 'n effect list" where
  "handleMessage pf now body p =
     (let messageBody = trim body;
          st = statistics p;
          p1 = p\<lparr>statistics := st\<lparr>bytesReceived := bytesReceived st + length messageBody\<rparr>\<rparr>
      in if \<not> isSnapshotComplete p1 \<and> isEndToken (config p1) messageBody then
           (let duration = int now - int (snapshotStartTime p1);
                p2 = p1\<lparr>isSnapshotComplete := True,
                        statistics := (statistics p1)\<lparr>mode := Mode_realtime\<rparr>\<rparr>
            in (p2, broadcast p2
                  (SnapshotComplete (providerId p2) (snapshotRowsReceived (statistics p2)) duration)))
         else
           (case JSON_parse pf messageBody of
              None \<Rightarrow> (p1, [])
            | Some data \<Rightarrow>
                (let positions = positions_of data;
                     r = applyUpdatesToSnapshot pf now positions (count_rows (length positions) p1);
                     p3 = snd r
                 in case fst r of
                      None \<Rightarrow>
                        (p3, broadcast p3 (Data (providerId p3) positions (\<not> isSnapshotComplete p3)))
                    | Some e \<Rightarrow>
                        (p3, broadcast p3 (ErrorEvent (providerId p3) (error_message e))))))"

text \<open>Frames are handled one after the other, in the order the transport delivers them.\<close>

fun handleMessages ::
  "'n platform \<Rightarrow> (nat \<times> string) list \<Rightarrow> 'n ProviderConnection
     \<Rightarrow> 'n ProviderConnection \<times> 'n effect list" where
  "handleMessages pf [] p = (p, [])"
| "handleMessages pf ((now, body) # frames) p =
     (let r = handleMessage pf now body p;
          r' = handleMessages pf frames (fst r)
      in (fst r', snd r @ snd r'))"

text \<open>
  \<^verbatim>\<open>connect()\<close>. The first component of the result is the exception that leaves the
  method, if any; the provider is returned as it stands at that point.
\<close>

definition connect ::
  "'n platform \<Rightarrow> nat \<Rightarrow> string \<Rightarrow> 'n ProviderConnection
     \<Rightarrow> js_error option \<times> 'n ProviderConnection \<times> 'n effect list" where
  "connect pf now random p =
     (if isConnecting p \<or> isConnected (statistics p) then (None, p, [])
      else
        (let p1 = p\<lparr>isConnecting := True\<rparr>;
             cid = generateClientId now random;
             c = \<lparr> clientId = cid,
                   listenerTopic = buildListenerTopic (config p1) cid,
                   triggerDestination = buildTriggerDestination (config p1) cid \<rparr>
         in if \<not> StompJs_loaded pf then
              (Some (ReferenceError ''StompJs is not defined''), p1\<lparr>isConnecting := False\<rparr>, [])
            else
              (None, p1\<lparr>connection := Some c\<rparr>, [Activate (websocketUrl (config p1)) c])))"

text \<open>
  The callbacks \<^verbatim>\<open>connect()\<close> installs on the client \<open>c\<close>. \<^verbatim>\<open>onConnect\<close> subscribes
  and publishes through \<^verbatim>\<open>this.connection\<close>, the provider's current client.
\<close>

definition onConnect ::
  "nat \<Rightarrow> client \<Rightarrow> 'n ProviderConnection
     \<Rightarrow> js_error option \<times> 'n ProviderConnection \<times> 'n effect list" where
  "onConnect now c p =
     (let st = statistics p;
          p1 = p\<lparr>statistics := st\<lparr>isConnected := True,
                                   connectionCount := connectionCount st + 1,
                                   mode := Mode_snapshot\<rparr>,
                 isConnecting := False,
                 snapshotStartTime := now\<rparr>;
          p2 = p1\<lparr>snapshot := [],
                  statistics := (statistics p1)\<lparr>snapshotRowsReceived := 0\<rparr>,
                  isSnapshotComplete := False\<rparr>;
          out = broadcast p2 (Connected (providerId p2) (clientId c))
      in case connection p2 of
           None \<Rightarrow> (Some (TypeError ''Cannot read properties of null (reading subscribe)''), p2, out)
         | Some cur \<Rightarrow>
             (None, p2\<lparr>subscription := Some (listenerTopic c)\<rparr>,
              out @ [Subscribe cur (listenerTopic c), Publish cur (triggerDestination c) []]))"

definition onStompError ::
  "string option \<Rightarrow> 'n ProviderConnection \<Rightarrow> 'n ProviderConnection \<times> 'n effect list" where
  "onStompError header p =
     (let errorMsg = or_default header ''STOMP connection error''
      in (p, broadcast p (ErrorEvent (providerId p) errorMsg)))"

definition onWebSocketError ::
  "'n ProviderConnection \<Rightarrow> 'n ProviderConnection \<times> 'n effect list" where
  "onWebSocketError p = (p, broadcast p (ErrorEvent (providerId p) ''WebSocket connection error''))"

definition onDisconnect ::
  "'n ProviderConnection \<Rightarrow> 'n ProviderConnection \<times> 'n effect list" where
  "onDisconnect p =
     (let st = statistics p;
          p1 = p\<lparr>statistics := st\<lparr>isConnected := False,
                                   disconnectionCount := disconnectionCount st + 1,
                                   mode := Mode_idle\<rparr>,
                 isConnecting := False\<rparr>
      in (p1, broadcast p1 (Disconnected (providerId p1))))"

text \<open>
  \<^verbatim>\<open>disconnect()\<close>: errors of \<^verbatim>\<open>unsubscribe\<close> and \<^verbatim>\<open>deactivate\<close> are caught and
  logged, so the method always completes.
\<close>

definition disconnect ::
  "'n ProviderConnection \<Rightarrow> 'n ProviderConnection \<times> 'n effect list" where
  "disconnect p =
     (let e1 = (case subscription p of None \<Rightarrow> [] | Some t \<Rightarrow> [Unsubscribe t]);
          e2 = (case connection p of None \<Rightarrow> [] | Some c \<Rightarrow> [Deactivate c]);
          st = statistics p
      in (p\<lparr>subscription := None, connection := None,
            statistics := st\<lparr>isConnected := False, mode := Mode_idle\<rparr>,
            isConnecting := False\<rparr>,
          e1 @ e2))"

section \<open>The worker: registry and gateway\<close>

text \<open>
  The global state of the worker: the registry \<^verbatim>\<open>providers\<close>, the \<^verbatim>\<open>ports\<close> and
  the counter of port ids. The source file holds the worker twice; the second copy
  adds log output and its \<^verbatim>\<open>handleConnect\<close> posts no response to the request. The
  model follows the first copy.
\<close>

record 'n worker =
  providers :: "string \<rightharpoonup> 'n ProviderConnection"
  ports :: "(string \<times> port) list"
  portCounter :: nat

definition initial_worker :: "'n worker" where
  "initial_worker = \<lparr> providers = Map.empty, ports = [], portCounter = 0 \<rparr>"

text \<open>\<^verbatim>\<open>self.onconnect\<close> with \<^verbatim>\<open>generatePortId\<close>: a new port is registered under a new id.\<close>

definition onconnect :: "nat \<Rightarrow> port \<Rightarrow> 'n worker \<Rightarrow> string \<times> 'n worker" where
  "onconnect now port w =
     (let n = portCounter w + 1;
          portId = ''port-'' @ decimal now @ ''-'' @ decimal n
      in (portId, w\<lparr>portCounter := n, ports := Map_set portId port (ports w)\<rparr>))"

text \<open>
  A request of a consumer, as \<^verbatim>\<open>handlePortMessage\<close> destructures it: \<^verbatim>\<open>id\<close>, then
  \<^verbatim>\<open>providerId\<close>, and the \<^verbatim>\<open>config\<close> of a connect request. \<open>Other\<close> is a message of
  any other \<^verbatim>\<open>type\<close>.
\<close>

datatype request =
    Connect string string ProviderConfig
  | Disconnect string string
  | Refresh string string
  | GetSnapshot string string
  | GetStatistics string string
  | Other string string

definition handleConnect ::
  "'n platform \<Rightarrow> nat \<Rightarrow> string \<Rightarrow> string \<Rightarrow> port \<Rightarrow> string \<Rightarrow> ProviderConfig \<Rightarrow> string
     \<Rightarrow> 'n worker \<Rightarrow> js_error option \<times> 'n worker \<times> 'n effect list" where
  "handleConnect pf now random portId port pid cfg messageId w =
     (let provider0 = (case providers w pid of
                         None \<Rightarrow> new_ProviderConnection now pid cfg
                       | Some p \<Rightarrow> p);
          provider = provider0\<lparr>subscribers := Map_set portId port (subscribers provider0)\<rparr>;
          response = PostMessage port (Response messageId Success_true)
      in if \<not> isConnected (statistics provider) \<and> \<not> isConnecting provider then
           (case connect pf now random provider of
              (Some e, p', effs) \<Rightarrow> (Some e, w\<lparr>providers := (providers w)(pid \<mapsto> p')\<rparr>, effs)
            | (None, p', effs) \<Rightarrow>
                (None, w\<lparr>providers := (providers w)(pid \<mapsto> p')\<rparr>, effs @ [response]))
         else if isConnected (statistics provider) then
           (None, w\<lparr>providers := (providers w)(pid \<mapsto> provider)\<rparr>,
            [PostMessage port (Connected pid pid)]
            @ (if Map_size (snapshot provider) > 0
               then [PostMessage port (Data pid (getSnapshot provider) False)] else [])
            @ [response])
         else
           (None, w\<lparr>providers := (providers w)(pid \<mapsto> provider)\<rparr>, [response]))"

definition handleDisconnect :: "string \<Rightarrow> 'n worker \<Rightarrow> 'n worker \<times> 'n effect list" where
  "handleDisconnect pid w =
     (case providers w pid of
        None \<Rightarrow> (w, [])
      | Some provider \<Rightarrow>
          (w\<lparr>providers := (providers w)(pid := None)\<rparr>, snd (disconnect provider)))"

text \<open>
  \<^verbatim>\<open>handleRefresh\<close> in its two halves: up to the delay of 100 ms, and the reconnect
  after it. The second half runs on the provider the first half found; here it is
  run on the registry's entry, so it is exact when the entry was neither removed nor
  replaced during the delay.
\<close>

definition handleRefresh_begin ::
  "string \<Rightarrow> 'n worker \<Rightarrow> js_error option \<times> 'n worker \<times> 'n effect list" where
  "handleRefresh_begin pid w =
     (case providers w pid of
        None \<Rightarrow> (Some (Error ''Provider not connected''), w, [])
      | Some provider \<Rightarrow>
          (let r = disconnect provider
           in (None, w\<lparr>providers := (providers w)(pid \<mapsto> fst r)\<rparr>, snd r)))"


definition handleGetSnapshot :: "string \<Rightarrow> 'n worker \<Rightarrow> 'n json list" where
  "handleGetSnapshot pid w =
     (case providers w pid of None \<Rightarrow> [] | Some provider \<Rightarrow> getSnapshot provider)"

definition handleGetStatistics :: "string \<Rightarrow> 'n worker \<Rightarrow> statistics option" where
  "handleGetStatistics pid w =
     (case providers w pid of None \<Rightarrow> None | Some provider \<Rightarrow> Some (statistics provider))"

text \<open>
  \<^verbatim>\<open>handlePortMessage\<close>: the dispatch on the request type, and the \<^verbatim>\<open>catch\<close> that
  answers an exception with an error message carrying the request's id. A refresh
  is handled up to its delay; \<open>resumeRefresh\<close> is the rest of that case.
\<close>

definition handlePortMessage ::
  "'n platform \<Rightarrow> nat \<Rightarrow> string \<Rightarrow> string \<Rightarrow> port \<Rightarrow> request \<Rightarrow> 'n worker
     \<Rightarrow> 'n worker \<times> 'n effect list" where
  "handlePortMessage pf now random portId port message w =
     (case message of
        Connect i pid cfg \<Rightarrow>
          (case handleConnect pf now random portId port pid cfg i w of
             (Some e, w', effs) \<Rightarrow> (w', effs @ [PostMessage port (ErrorResponse i (error_message e))])
           | (None, w', effs) \<Rightarrow> (w', effs))
      | Disconnect i pid \<Rightarrow>
          (let r = handleDisconnect pid w
           in (fst r, snd r @ [PostMessage port (Response i Success_true)]))
      | Refresh i pid \<Rightarrow>
          (case handleRefresh_begin pid w of
             (Some e, w', effs) \<Rightarrow> (w', effs @ [PostMessage port (ErrorResponse i (error_message e))])
           | (None, w', effs) \<Rightarrow> (w', effs))
      | GetSnapshot i pid \<Rightarrow>
          (w, [PostMessage port (Response i (Data_body (handleGetSnapshot pid w)))])
      | GetStatistics i pid \<Rightarrow>
          (w, [PostMessage port (Response i (Statistics_body (handleGetStatistics pid w)))])
      | Other i ty \<Rightarrow>
          (w, [PostMessage port (ErrorResponse i (''Unknown message type: '' @ ty))]))"


section \<open>The consumer side: request and response correlation\<close>

text \<open>
  Both Angular services return a promise from \<^verbatim>\<open>sendWorkerMessage\<close>. A promise is a
  number here (the promises in the order of their creation), and every call of a
  promise's \<^verbatim>\<open>resolve\<close> or \<^verbatim>\<open>reject\<close> function is logged with it. A promise settles
  with the first such call and ignores the later ones.
\<close>

datatype 'a outcome = Resolve 'a | Reject string



fun Map_get :: "('k \<times> 'v) list \<Rightarrow> 'k \<Rightarrow> 'v option" where
  "Map_get [] k = None"
| "Map_get ((k', v) # kvs) k = (if k = k' then Some v else Map_get kvs k)"



subsection \<open>StompClientService\<close>

text \<open>
  \<^verbatim>\<open>projects/stomp-client\<close>: the service keeps the map \<^verbatim>\<open>pendingMessages\<close> from a
  message id to the \<^verbatim>\<open>resolve\<close> and \<^verbatim>\<open>reject\<close> functions of the request's promise.
  A timer set by \<^verbatim>\<open>setTimeout\<close> is kept with its delay, the message id and type its
  callback closes over, and that promise; it fires once.
\<close>

record 'a WorkerMessage =
  wm_id :: string
  wm_type :: string
  wm_payload :: 'a

record 'a WorkerResponse =
  wr_id :: string
  wr_type :: string
  wr_payload :: 'a
  wr_error :: "string option"

record 'a StompClientService =
  port_available :: bool
  messageId :: nat
  pendingMessages :: "(string \<times> nat) list"
  timeouts :: "(nat \<times> string \<times> string \<times> nat) list"
  promiseCount :: nat
  calls :: "(nat \<times> 'a outcome) list"
  postedToWorker :: "'a WorkerMessage list"
  broadcastMessages :: "'a WorkerResponse list"









subsection \<open>StompClientEnhancedService\<close>










subsection \<open>A pending request and the event that settles it\<close>







section \<open>Runs of the worker\<close>

text \<open>
  A callback of the STOMP client runs on its provider. \<open>on_provider\<close> runs one on the
  provider the registry holds under an id; \<open>onConnect_current\<close> is the \<^verbatim>\<open>onConnect\<close>
  callback of the provider's current client.
\<close>

definition on_provider ::
  "string \<Rightarrow> ('n ProviderConnection \<Rightarrow> 'n ProviderConnection \<times> 'n effect list) \<Rightarrow> 'n worker
     \<Rightarrow> 'n worker \<times> 'n effect list" where
  "on_provider pid f w =
     (case providers w pid of
        None \<Rightarrow> (w, [])
      | Some p \<Rightarrow> (let r = f p in (w\<lparr>providers := (providers w)(pid \<mapsto> fst r)\<rparr>, snd r)))"

definition onConnect_current ::
  "nat \<Rightarrow> 'n ProviderConnection \<Rightarrow> 'n ProviderConnection \<times> 'n effect list" where
  "onConnect_current now p =
     (case connection p of None \<Rightarrow> (p, []) | Some c \<Rightarrow> snd (onConnect now c p))"

text \<open>
  A sequence of \<^verbatim>\<open>applyUpdatesToSnapshot\<close> calls, each with the time of the call and
  its batch. A call that throws leaves the records it had stored, and the next call
  goes on from there.
\<close>

fun applyBatches ::
  "'n platform \<Rightarrow> (nat \<times> 'n json list) list \<Rightarrow> 'n ProviderConnection \<Rightarrow> 'n ProviderConnection" where
  "applyBatches pf [] p = p"
| "applyBatches pf ((now, updates) # bs) p =
     applyBatches pf bs (snd (applyUpdatesToSnapshot pf now updates p))"

text \<open>
  The key under which \<^verbatim>\<open>applyUpdatesToSnapshot\<close> stores a record, if it stores it:
  the record has a key that is neither \<^verbatim>\<open>undefined\<close> nor \<^verbatim>\<open>null\<close>, and reading the key
  and making it a string does not throw.
\<close>

definition key_of :: "'n platform \<Rightarrow> string \<Rightarrow> 'n json \<Rightarrow> string option" where
  "key_of pf kc update = (case read_key pf kc update of Inl e \<Rightarrow> None | Inr k \<Rightarrow> k)"

definition keys_of :: "'n platform \<Rightarrow> 'n ProviderConnection \<Rightarrow> 'n json list \<Rightarrow> string option list" where
  "keys_of pf p updates =
     map (key_of pf (or_default (keyColumn (config p)) ''positionId'')) updates"

text \<open>The exception of the first record of a batch whose key cannot be read, if there is one.\<close>

fun first_throw :: "'n platform \<Rightarrow> string \<Rightarrow> 'n json list \<Rightarrow> js_error option" where
  "first_throw pf kc [] = None"
| "first_throw pf kc (update # updates) =
     (case read_key pf kc update of
        Inl e \<Rightarrow> Some e
      | Inr k \<Rightarrow> first_throw pf kc updates)"

text \<open>The kinds of posted events the properties below tell apart.\<close>

fun is_snapshot_complete :: "'n effect \<Rightarrow> bool" where
  "is_snapshot_complete (PostMessage port (SnapshotComplete pid n d)) = True"
| "is_snapshot_complete e = False"

fun is_data :: "'n effect \<Rightarrow> bool" where
  "is_data (PostMessage port (Data pid rs b)) = True"
| "is_data e = False"


section \<open>A concrete platform\<close>

text \<open>
  The handlers above take \<^verbatim>\<open>JSON.parse\<close> as a parameter, and what is proved of them
  holds for every such function. To run them on concrete frames, here is a reader
  for JSON texts in ASCII whose numbers are integers of at most 15 digits: it
  rejects a fraction, an exponent and a \<^verbatim>\<open>\u\<close> escape, which \<^verbatim>\<open>JSON.parse\<close> accepts,
  and agrees with it on the texts it reads. The first argument of the mutually
  recursive readers bounds the depth of the recursion.
\<close>

definition json_ws :: "char \<Rightarrow> bool" where
  "json_ws c = (c = CHR 0x20 \<or> c = CHR 0x09 \<or> c = CHR 0x0A \<or> c = CHR 0x0D)"

definition skip_ws :: "string \<Rightarrow> string" where
  "skip_ws s = dropWhile json_ws s"

definition unescape :: "char \<Rightarrow> char option" where
  "unescape e =
     (if e = CHR 0x22 then Some (CHR 0x22)
      else if e = CHR 0x5C then Some (CHR 0x5C)
      else if e = CHR ''/'' then Some (CHR ''/'')
      else if e = CHR ''b'' then Some (CHR 0x08)
      else if e = CHR ''f'' then Some (CHR 0x0C)
      else if e = CHR ''n'' then Some (CHR 0x0A)
      else if e = CHR ''r'' then Some (CHR 0x0D)
      else if e = CHR ''t'' then Some (CHR 0x09)
      else None)"

fun read_string :: "string \<Rightarrow> string \<Rightarrow> (string \<times> string) option" where
  "read_string acc [] = None"
| "read_string acc [c] = (if c = CHR 0x22 then Some (rev acc, []) else None)"
| "read_string acc (c # d # cs) =
     (if c = CHR 0x22 then Some (rev acc, d # cs)
      else if c = CHR 0x5C then
        (case unescape d of None \<Rightarrow> None | Some x \<Rightarrow> read_string (x # acc) cs)
      else if (of_char c :: nat) < 32 then None
      else read_string (c # acc) (d # cs))"

definition is_digit :: "char \<Rightarrow> bool" where
  "is_digit c = (48 \<le> (of_char c :: nat) \<and> (of_char c :: nat) \<le> 57)"

definition digits_value :: "string \<Rightarrow> nat" where
  "digits_value ds = foldl (\<lambda>a c. 10 * a + (of_char c - 48)) 0 ds"

definition read_number :: "string \<Rightarrow> (int \<times> string) option" where
  "read_number s =
     (let neg = (take 1 s = ''-'');
          s1 = (if neg then drop 1 s else s);
          ds = takeWhile is_digit s1;
          rest = dropWhile is_digit s1
      in if ds = [] \<or> (length ds > 1 \<and> take 1 ds = ''0'') \<or> length ds > 15 then None
         else if take 1 rest = ''.'' \<or> take 1 rest = ''e'' \<or> take 1 rest = ''E'' then None
         else Some (if neg then - int (digits_value ds) else int (digits_value ds), rest))"

fun read_value :: "'f list \<Rightarrow> string \<Rightarrow> (int json \<times> string) option"
  and read_elements :: "'f list \<Rightarrow> string \<Rightarrow> (int json list \<times> string) option"
  and read_members :: "'f list \<Rightarrow> string \<Rightarrow> ((string \<times> int json) list \<times> string) option"
where
  "read_value [] s = None"
| "read_value (f # fuel) s =
     (let t = skip_ws s
      in if take 4 t = ''null'' then Some (JNull, drop 4 t)
         else if take 4 t = ''true'' then Some (JBool True, drop 4 t)
         else if take 5 t = ''false'' then Some (JBool False, drop 5 t)
         else if take 1 t = [CHR 0x22] then
           (case read_string [] (drop 1 t) of
              None \<Rightarrow> None
            | Some (str, r) \<Rightarrow> Some (JStr str, r))
         else if take 1 t = ''['' then
           (if take 1 (skip_ws (drop 1 t)) = '']'' then Some (JArr [], drop 1 (skip_ws (drop 1 t)))
            else (case read_elements fuel (drop 1 t) of
                    None \<Rightarrow> None
                  | Some (vs, r) \<Rightarrow> Some (JArr vs, r)))
         else if take 1 t = ''{'' then
           (if take 1 (skip_ws (drop 1 t)) = ''}'' then Some (JObj [], drop 1 (skip_ws (drop 1 t)))
            else (case read_members fuel (drop 1 t) of
                    None \<Rightarrow> None
                  | Some (ms, r) \<Rightarrow> Some (JObj ms, r)))
         else
           (case read_number t of
              None \<Rightarrow> None
            | Some (n, r) \<Rightarrow> Some (JNum n, r)))"
| "read_elements [] s = None"
| "read_elements (f # fuel) s =
     (case read_value fuel s of
        None \<Rightarrow> None
      | Some (v, r) \<Rightarrow>
          (let t = skip_ws r
           in if take 1 t = '']'' then Some ([v], drop 1 t)
              else if take 1 t = '','' then
                (case read_elements fuel (drop 1 t) of
                   None \<Rightarrow> None
                 | Some (vs, r') \<Rightarrow> Some (v # vs, r'))
              else None))"
| "read_members [] s = None"
| "read_members (f # fuel) s =
     (let t = skip_ws s
      in if take 1 t = [CHR 0x22] then
           (case read_string [] (drop 1 t) of
              None \<Rightarrow> None
            | Some (name, r) \<Rightarrow>
                (let t1 = skip_ws r
                 in if take 1 t1 = '':'' then
                      (case read_value fuel (drop 1 t1) of
                         None \<Rightarrow> None
                       | Some (v, r1) \<Rightarrow>
                           (let t2 = skip_ws r1
                            in if take 1 t2 = ''}'' then Some ([(name, v)], drop 1 t2)
                               else if take 1 t2 = '','' then
                                 (case read_members fuel (drop 1 t2) of
                                    None \<Rightarrow> None
                                  | Some (ms, r2) \<Rightarrow> Some ((name, v) # ms, r2))
                               else None))
                    else None))
         else None)"

definition read_json :: "string \<Rightarrow> int json option" where
  "read_json s =
     (case read_value (s @ s) s of
        None \<Rightarrow> None
      | Some (v, r) \<Rightarrow> if skip_ws r = [] then Some v else None)"

definition int_toString :: "int \<Rightarrow> string" where
  "int_toString i = (if i < 0 then ''-'' @ decimal (nat (- i)) else decimal (nat i))"

text \<open>
  The inherited members of this platform are those of ECMAScript 2017, the edition
  of the worker's own syntax; a built-in function is written as V8 writes it. An
  engine of a later edition has further methods, which this table does not list.
\<close>

definition native :: "string \<Rightarrow> string" where
  "native name = ''function '' @ name @ ''() { [native code] }''"

definition Object_prototype :: "string list" where
  "Object_prototype =
     [''hasOwnProperty'', ''isPrototypeOf'', ''propertyIsEnumerable'', ''toLocaleString'',
      ''toString'', ''valueOf'', ''__defineGetter__'', ''__defineSetter__'',
      ''__lookupGetter__'', ''__lookupSetter__'']"

fun prototype_methods :: "value_kind \<Rightarrow> string list" where
  "prototype_methods Kind_boolean = Object_prototype"
| "prototype_methods Kind_number =
     [''toExponential'', ''toFixed'', ''toPrecision''] @ Object_prototype"
| "prototype_methods Kind_string =
     [''charAt'', ''charCodeAt'', ''codePointAt'', ''concat'', ''endsWith'', ''includes'',
      ''indexOf'', ''lastIndexOf'', ''localeCompare'', ''match'', ''normalize'', ''padEnd'',
      ''padStart'', ''repeat'', ''replace'', ''search'', ''slice'', ''split'', ''startsWith'',
      ''substr'', ''substring'', ''toLocaleLowerCase'', ''toLocaleUpperCase'', ''toLowerCase'',
      ''toUpperCase'', ''trim'', ''anchor'', ''big'', ''blink'', ''bold'', ''fixed'',
      ''fontcolor'', ''fontsize'', ''italics'', ''link'', ''small'', ''strike'', ''sub'',
      ''sup''] @ Object_prototype"
| "prototype_methods Kind_array =
     [''concat'', ''copyWithin'', ''entries'', ''every'', ''fill'', ''filter'', ''find'',
      ''findIndex'', ''forEach'', ''includes'', ''indexOf'', ''join'', ''keys'',
      ''lastIndexOf'', ''map'', ''pop'', ''push'', ''reduce'', ''reduceRight'', ''reverse'',
      ''shift'', ''slice'', ''some'', ''sort'', ''splice'', ''unshift'', ''values'']
     @ Object_prototype"
| "prototype_methods Kind_object = Object_prototype"

fun constructor_name :: "value_kind \<Rightarrow> string" where
  "constructor_name Kind_boolean = ''Boolean''"
| "constructor_name Kind_number = ''Number''"
| "constructor_name Kind_string = ''String''"
| "constructor_name Kind_array = ''Array''"
| "constructor_name Kind_object = ''Object''"

text \<open>\<^verbatim>\<open>String\<close> of the prototype of a value, which \<^verbatim>\<open>__proto__\<close> yields.\<close>

fun prototype_string :: "value_kind \<Rightarrow> string" where
  "prototype_string Kind_boolean = ''false''"
| "prototype_string Kind_number = ''0''"
| "prototype_string Kind_string = []"
| "prototype_string Kind_array = []"
| "prototype_string Kind_object = ''[object Object]''"

definition concrete_inherited :: "value_kind \<Rightarrow> string \<Rightarrow> string option" where
  "concrete_inherited kind k =
     (if k = ''constructor'' then Some (native (constructor_name kind))
      else if k = ''__proto__'' then Some (prototype_string kind)
      else if k \<in> set (prototype_methods kind) then Some (native k)
      else None)"

definition concrete_platform :: "int platform" where
  "concrete_platform =
     \<lparr> JSON_parse = read_json, Number_toString = int_toString,
       inherited = concrete_inherited, StompJs_loaded = True \<rparr>"

section \<open>Example sessions\<close>

definition example_config :: ProviderConfig where
  "example_config =
     \<lparr> websocketUrl = ''ws://localhost:8080'', dataType = Some ''positions'',
       messageRate = Some 1000, batchSize = None, snapshotEndToken = Some ''Success'',
       keyColumn = Some ''id'' \<rparr>"

definition example_config_no_token :: ProviderConfig where
  "example_config_no_token = example_config\<lparr>snapshotEndToken := None\<rparr>"

text \<open>
  The worker after the consumer on port 1 has asked to connect provider \<^verbatim>\<open>A\<close>, and
  after the transport has then connected.
\<close>

definition connecting_worker :: "ProviderConfig \<Rightarrow> int worker" where
  "connecting_worker cfg =
     fst (handlePortMessage concrete_platform 1000 ''ab12'' ''port-1'' 1
            (Connect ''m1'' ''A'' cfg) initial_worker)"

definition connected_worker :: "ProviderConfig \<Rightarrow> int worker" where
  "connected_worker cfg = fst (on_provider ''A'' (onConnect_current 1005) (connecting_worker cfg))"

text \<open>The provider \<^verbatim>\<open>A\<close> in that worker: connected, in its snapshot phase, one subscriber.\<close>

definition example_provider :: "ProviderConfig \<Rightarrow> int ProviderConnection" where
  "example_provider cfg =
     \<lparr> providerId = ''A'', config = cfg, snapshot = [], lastUpdate = 1000,
       subscribers = [(''port-1'', 1)],
       connection = Some \<lparr> clientId = ''stomp-1000-ab12'',
                           listenerTopic = ''/snapshot/positions/stomp-1000-ab12'',
                           triggerDestination = ''/snapshot/positions/stomp-1000-ab12/1000'' \<rparr>,
       subscription = Some ''/snapshot/positions/stomp-1000-ab12'',
       statistics = \<lparr> snapshotRowsReceived = 0, updateRowsReceived = 0, connectionCount = 1,
                      disconnectionCount = 0, isConnected = True, bytesReceived = 0,
                      mode = Mode_snapshot \<rparr>,
       isConnecting = False, isSnapshotComplete = False, snapshotStartTime = 1005 \<rparr>"

text \<open>The worker after the consumer on port 2 has asked to connect provider \<^verbatim>\<open>A\<close> as well.\<close>

definition shared_worker :: "int worker" where
  "shared_worker =
     fst (handlePortMessage concrete_platform 1020 ''cd34'' ''port-2'' 2
            (Connect ''m2'' ''A'' example_config) (connected_worker example_config))"





section \<open>Verified properties\<close>

subsection \<open>The example session is one the worker reaches\<close>

lemma example_provider_reached:
  "providers (connected_worker example_config) ''A'' = Some (example_provider example_config)"
  "providers (connected_worker example_config_no_token) ''A''
     = Some (example_provider example_config_no_token)"
  by code_simp+

lemma example_provider_simps:
  "config (example_provider cfg) = cfg"
  "providerId (example_provider cfg) = ''A''"
  "snapshot (example_provider cfg) = []"
  "subscribers (example_provider cfg) = [(''port-1'', 1)]"
  "isSnapshotComplete (example_provider cfg) = False"
  "isConnecting (example_provider cfg) = False"
  "snapshotStartTime (example_provider cfg) = 1005"
  "statistics (example_provider cfg)
     = \<lparr> snapshotRowsReceived = 0, updateRowsReceived = 0, connectionCount = 1,
         disconnectionCount = 0, isConnected = True, bytesReceived = 0, mode = Mode_snapshot \<rparr>"
  by (simp_all add: example_provider_def)

lemma example_config_simps:
  "snapshotEndToken example_config = Some ''Success''"
  "snapshotEndToken example_config_no_token = None"
  "keyColumn example_config = Some ''id''"
  "keyColumn example_config_no_token = Some ''id''"
  by (simp_all add: example_config_def example_config_no_token_def)

subsection \<open>Strings\<close>

lemma toLowerCaseChar_idem: "toLowerCaseChar (toLowerCaseChar c) = toLowerCaseChar c"
  by (auto simp: toLowerCaseChar_def Let_def)

lemma toLowerCase_idem: "toLowerCase (toLowerCase s) = toLowerCase s"
  by (simp add: toLowerCase_def toLowerCaseChar_idem)

lemma dropWhile_idem: "dropWhile P (dropWhile P xs) = dropWhile P xs"
  by (induction xs) auto

lemma dropWhile_trimEnd:
  "dropWhile P (rev (dropWhile P (rev (dropWhile P xs)))) = rev (dropWhile P (rev (dropWhile P xs)))"
proof -
  let ?u = "dropWhile P xs"
  let ?t = "rev (dropWhile P (rev ?u))"
  have u: "?u = ?t @ rev (takeWhile P (rev ?u))"
    by (metis rev_append rev_rev_ident takeWhile_dropWhile_id)
  show ?thesis
  proof (cases "?t = []")
    case True
    then show ?thesis by (simp only: True dropWhile.simps)
  next
    case False
    then have "hd ?t = hd ?u" using u by (metis hd_append2)
    moreover have "?u \<noteq> []"
    proof
      assume e: "?u = []"
      have "?t = []" unfolding e by simp
      with False show False by contradiction
    qed
    ultimately have "\<not> P (hd ?t)" using hd_dropWhile[of P xs] by simp
    then show ?thesis by (simp add: dropWhile_eq_self_iff)
  qed
qed

lemma trim_idem: "trim (trim s) = trim s"
  unfolding trim_def by (simp add: dropWhile_trimEnd dropWhile_idem)

lemma includes_lower:
  assumes "includes_str (toLowerCase b) t"
  shows "includes_str (toLowerCase b) (toLowerCase t)"
proof -
  have "sublist (toLowerCase t) (toLowerCase (toLowerCase b))"
    using assms unfolding includes_str_def toLowerCase_def by (rule map_mono_sublist)
  then show ?thesis
    by (simp only: toLowerCase_idem includes_str_def)
qed

lemma sublist_dropWhile_keep:
  assumes "n \<noteq> []" "\<forall>c\<in>set n. \<not> P c" "sublist n xs"
  shows "sublist n (dropWhile P xs)"
  using assms(3)
proof (induction xs)
  case Nil
  then show ?case by simp
next
  case (Cons x xs)
  show ?case
  proof (cases "P x")
    case False
    then show ?thesis using Cons.prems by simp
  next
    case True
    have "\<not> prefix n (x # xs)"
      using assms(1,2) True by (cases n) auto
    then have "sublist n xs" using Cons.prems by (simp add: sublist_Cons_right)
    then show ?thesis using Cons.IH True by simp
  qed
qed

lemma sublist_trim:
  assumes "n \<noteq> []" "\<forall>c\<in>set n. \<not> isWhiteSpace c" "sublist n s"
  shows "sublist n (trim s)"
proof -
  have 1: "sublist n (dropWhile isWhiteSpace s)"
    using assms by (rule sublist_dropWhile_keep)
  have "sublist (rev n) (rev (dropWhile isWhiteSpace s))" using 1 by simp
  then have "sublist (rev n) (dropWhile isWhiteSpace (rev (dropWhile isWhiteSpace s)))"
    using assms(1,2) by (intro sublist_dropWhile_keep) auto
  then show ?thesis unfolding trim_def by (simp add: sublist_rev_left)
qed

lemma isWhiteSpace_code:
  "isWhiteSpace c \<longleftrightarrow> (of_char c :: nat) \<in> {9, 10, 11, 12, 13, 32}"
proof -
  have e: "\<And>d. (c = d) = ((of_char c :: nat) = of_char d)"
    by simp
  show ?thesis
    unfolding isWhiteSpace_def e by simp
qed

lemma isWhiteSpace_lower: "isWhiteSpace (toLowerCaseChar c) = isWhiteSpace c"
  by (auto simp: isWhiteSpace_code toLowerCaseChar_def Let_def)

lemma trim_toLowerCase: "trim (toLowerCase s) = toLowerCase (trim s)"
proof -
  have c: "isWhiteSpace \<circ> toLowerCaseChar = isWhiteSpace"
    by (rule ext) (simp add: isWhiteSpace_lower)
  show ?thesis
    by (simp add: trim_def toLowerCase_def dropWhile_map rev_map c)
qed

lemma includes_success_trim:
  assumes "includes_str (toLowerCase B) ''success''"
  shows "includes_str (toLowerCase (trim B)) ''success''"
proof -
  have "sublist ''success'' (trim (toLowerCase B))"
    using assms unfolding includes_str_def
    by (intro sublist_trim) (simp_all add: isWhiteSpace_code)
  then show ?thesis by (simp add: includes_str_def trim_toLowerCase)
qed

subsection \<open>The end-token test and the frame handler\<close>

lemma isEndToken_iff:
  "isEndToken cfg B \<longleftrightarrow>
     (\<exists>T. snapshotEndToken cfg = Some T \<and> T \<noteq> [] \<and>
        (includes_str (toLowerCase (trim B)) (toLowerCase T)
         \<or> includes_str (toLowerCase (trim B)) ''success''))"
  by (auto simp: isEndToken_def Let_def split: option.splits)

lemma isEndToken_trim: "isEndToken cfg (trim B) = isEndToken cfg B"
  by (simp add: isEndToken_iff trim_idem)

lemma handleMessage_end:
  assumes "\<not> isSnapshotComplete p" "isEndToken (config p) B"
  shows "handleMessage pf now B p =
           (p\<lparr>statistics := (statistics p)\<lparr>bytesReceived := bytesReceived (statistics p) + length (trim B),
                                           mode := Mode_realtime\<rparr>,
              isSnapshotComplete := True\<rparr>,
            broadcast p (SnapshotComplete (providerId p) (snapshotRowsReceived (statistics p))
                           (int now - int (snapshotStartTime p))))"
  using assms by (simp add: handleMessage_def Let_def isEndToken_trim broadcast_def)

lemma handleMessage_ignored:
  assumes "isSnapshotComplete p \<or> \<not> isEndToken (config p) B" "JSON_parse pf (trim B) = None"
  shows "handleMessage pf now B p =
           (p\<lparr>statistics := (statistics p)\<lparr>bytesReceived := bytesReceived (statistics p) + length (trim B)\<rparr>\<rparr>, [])"
  using assms by (auto simp add: handleMessage_def Let_def isEndToken_trim)

lemma handleMessage_data:
  assumes "isSnapshotComplete p \<or> \<not> isEndToken (config p) B" "JSON_parse pf (trim B) = Some d"
  shows "handleMessage pf now B p =
     (let p1 = p\<lparr>statistics := (statistics p)\<lparr>bytesReceived := bytesReceived (statistics p) + length (trim B)\<rparr>\<rparr>;
          r = applyUpdatesToSnapshot pf now (positions_of d) (count_rows (length (positions_of d)) p1)
      in (snd r,
          broadcast (snd r)
            (case fst r of
               None \<Rightarrow> Data (providerId p) (positions_of d) (\<not> isSnapshotComplete p)
             | Some e \<Rightarrow> ErrorEvent (providerId p) (error_message e))))"
  using assms
  by (auto simp add: handleMessage_def Let_def isEndToken_trim applyUpdatesToSnapshot_def count_rows_def
      split: option.splits)

text \<open>
  C3. For a configured (non-empty) end token T and a body B whose trimmed,
  lower-cased text contains T, the lower-cased T or the literal "success", the
  end-token test holds; a frame with such a body in the snapshot phase ends the
  snapshot: the provider turns to real-time mode and a snapshot-complete event is
  broadcast, without the cache being touched.
\<close>

theorem end_token_classified_EndOfSnapshot:
  assumes "snapshotEndToken (config p) = Some T" and "T \<noteq> []"
    and "includes_str (toLowerCase (trim B)) T
         \<or> includes_str (toLowerCase (trim B)) (toLowerCase T)
         \<or> includes_str (toLowerCase (trim B)) ''success''"
  shows "isEndToken (config p) B \<and>
         (\<not> isSnapshotComplete p \<longrightarrow>
            handleMessage pf now B p =
              (p\<lparr>statistics := (statistics p)\<lparr>bytesReceived := bytesReceived (statistics p) + length (trim B),
                                              mode := Mode_realtime\<rparr>,
                 isSnapshotComplete := True\<rparr>,
               broadcast p (SnapshotComplete (providerId p) (snapshotRowsReceived (statistics p))
                              (int now - int (snapshotStartTime p)))))"
proof -
  have "includes_str (toLowerCase (trim B)) (toLowerCase T)
        \<or> includes_str (toLowerCase (trim B)) ''success''"
    using assms(3) includes_lower by blast
  then have e: "isEndToken (config p) B"
    using assms(1,2) by (simp add: isEndToken_iff)
  then show ?thesis
    using handleMessage_end by blast
qed

theorem end_token_classified_EndOfSnapshot_witness:
  "snapshotEndToken (config (example_provider example_config)) = Some ''Success''
   \<and> isEndToken (config (example_provider example_config)) ''Success: All 2 records delivered''
   \<and> snd (handleMessage concrete_platform 1012 ''Success: All 2 records delivered''
             (example_provider example_config))
       = [PostMessage 1 (SnapshotComplete ''A'' 0 7)]"
proof -
  have h1: "snapshotEndToken (config (example_provider example_config)) = Some ''Success''"
    by (simp add: example_provider_simps example_config_simps)
  have h2: "''Success'' \<noteq> []" by simp
  have h3: "includes_str (toLowerCase (trim ''Success: All 2 records delivered'')) ''Success''
         \<or> includes_str (toLowerCase (trim ''Success: All 2 records delivered'')) (toLowerCase ''Success'')
         \<or> includes_str (toLowerCase (trim ''Success: All 2 records delivered'')) ''success''"
    by code_simp
  from end_token_classified_EndOfSnapshot [OF h1 h2 h3, of concrete_platform 1012] h1
  show ?thesis by (simp add: example_provider_simps broadcast_def)
qed

lemma applyUpdatesToSnapshot_frame:
  "statistics (snd (applyUpdatesToSnapshot pf now us p)) = statistics p"
  "isSnapshotComplete (snd (applyUpdatesToSnapshot pf now us p)) = isSnapshotComplete p"
  "config (snd (applyUpdatesToSnapshot pf now us p)) = config p"
  "subscribers (snd (applyUpdatesToSnapshot pf now us p)) = subscribers p"
  "providerId (snd (applyUpdatesToSnapshot pf now us p)) = providerId p"
  by (simp_all add: applyUpdatesToSnapshot_def Let_def split: option.splits)

lemma count_rows_frame:
  "isSnapshotComplete (count_rows n p) = isSnapshotComplete p"
  "config (count_rows n p) = config p"
  "subscribers (count_rows n p) = subscribers p"
  "providerId (count_rows n p) = providerId p"
  "snapshot (count_rows n p) = snapshot p"
  "mode (statistics (count_rows n p)) = mode (statistics p)"
  "bytesReceived (statistics (count_rows n p)) = bytesReceived (statistics p)"
  by (simp_all add: count_rows_def Let_def)

lemma filter_broadcast_not_complete:
  "(\<And>pid n d. m \<noteq> SnapshotComplete pid n d) \<Longrightarrow> filter is_snapshot_complete (broadcast p m) = []"
  by (cases m) (auto simp: broadcast_def filter_empty_conv)

lemma handleMessage_not_end:
  assumes "\<not> isEndToken (config p) B"
  shows "isSnapshotComplete (fst (handleMessage pf now B p)) = isSnapshotComplete p
       \<and> mode (statistics (fst (handleMessage pf now B p))) = mode (statistics p)
       \<and> config (fst (handleMessage pf now B p)) = config p
       \<and> filter is_snapshot_complete (snd (handleMessage pf now B p)) = []"
proof (cases "JSON_parse pf (trim B)")
  case None
  then show ?thesis using assms by (simp add: handleMessage_ignored)
next
  case (Some d)
  have "filter is_snapshot_complete (broadcast q (case e of None \<Rightarrow> Data a b c | Some x \<Rightarrow> ErrorEvent a' (f x))) = []"
    for q :: "'a ProviderConnection" and e :: "js_error option" and a b c a' f
    by (cases e) (simp_all add: filter_broadcast_not_complete)
  then show ?thesis
    using assms Some
    by (simp add: handleMessage_data Let_def applyUpdatesToSnapshot_frame count_rows_frame)
qed

lemma handleMessages_no_token:
  assumes "\<And>B. \<not> isEndToken (config p) B"
  shows "isSnapshotComplete (fst (handleMessages pf frames p)) = isSnapshotComplete p
       \<and> mode (statistics (fst (handleMessages pf frames p))) = mode (statistics p)
       \<and> config (fst (handleMessages pf frames p)) = config p
       \<and> filter is_snapshot_complete (snd (handleMessages pf frames p)) = []"
  using assms
proof (induction frames arbitrary: p)
  case Nil
  then show ?case by simp
next
  case (Cons fr frames)
  obtain now B where fr: "fr = (now, B)" by (cases fr)
  let ?q = "fst (handleMessage pf now B p)"
  have step: "isSnapshotComplete ?q = isSnapshotComplete p
       \<and> mode (statistics ?q) = mode (statistics p)
       \<and> config ?q = config p
       \<and> filter is_snapshot_complete (snd (handleMessage pf now B p)) = []"
    using Cons.prems by (intro handleMessage_not_end) simp
  then have "\<And>B. \<not> isEndToken (config ?q) B" using Cons.prems by simp
  from Cons.IH[OF this] step show ?case
    by (simp add: fr Let_def)
qed

text \<open>
  C10. With no end-of-snapshot token in the configuration (absent or empty), the
  end-token test is false for every body, also one that contains "success"; no
  sequence of frames then completes the snapshot: the provider stays in the phase it
  is in and no snapshot-complete event is posted.
\<close>

theorem no_end_token_never_EndOfSnapshot:
  assumes "snapshotEndToken (config p) = None \<or> snapshotEndToken (config p) = Some []"
  shows "\<not> isEndToken (config p) body
       \<and> isSnapshotComplete (fst (handleMessages pf frames p)) = isSnapshotComplete p
       \<and> mode (statistics (fst (handleMessages pf frames p))) = mode (statistics p)
       \<and> filter is_snapshot_complete (snd (handleMessages pf frames p)) = []"
proof -
  have n: "\<And>B. \<not> isEndToken (config p) B"
    using assms by (auto simp: isEndToken_def)
  show ?thesis
    using n handleMessages_no_token[of p pf frames] by simp
qed

theorem no_end_token_never_EndOfSnapshot_witness:
  "snapshotEndToken (config (example_provider example_config_no_token)) = None
   \<and> includes_str (toLowerCase (trim ''Success: All 1 records delivered'')) ''success''
   \<and> \<not> isEndToken (config (example_provider example_config_no_token)) ''Success: All 1 records delivered''
   \<and> \<not> isSnapshotComplete (fst (handleMessages concrete_platform
          [(1010, ''{\"id\":\"1\"}''), (1011, ''Success: All 1 records delivered'')]
          (example_provider example_config_no_token)))
   \<and> mode (statistics (fst (handleMessages concrete_platform
          [(1010, ''{\"id\":\"1\"}''), (1011, ''Success: All 1 records delivered'')]
          (example_provider example_config_no_token)))) = Mode_snapshot"
proof -
  have h: "snapshotEndToken (config (example_provider example_config_no_token)) = None"
    by (simp add: example_provider_simps example_config_simps)
  have i: "includes_str (toLowerCase (trim ''Success: All 1 records delivered'')) ''success''"
    by code_simp
  from no_end_token_never_EndOfSnapshot [OF disjI1 [OF h], of "''Success: All 1 records delivered''"
      concrete_platform "[(1010, ''{\"id\":\"1\"}''), (1011, ''Success: All 1 records delivered'')]"]
  show ?thesis using h i by (simp add: example_provider_simps)
qed

text \<open>
  C4, as stated, fails: with no end token configured the check lets every body
  through, and a JSON payload that contains "success" is delivered as a data record
  during the snapshot phase.
\<close>

theorem success_payload_delivered_without_token:
  "includes_str (toLowerCase ''{\"positionId\":\"1\",\"status\":\"success\"}'') ''success''
   \<and> \<not> isSnapshotComplete (example_provider example_config_no_token)
   \<and> handleMessage concrete_platform 1010 ''{\"positionId\":\"1\",\"status\":\"success\"}''
         (example_provider example_config_no_token)
       = ((example_provider example_config_no_token)
            \<lparr>statistics := (statistics (example_provider example_config_no_token))
                             \<lparr>bytesReceived := 37, snapshotRowsReceived := 1\<rparr>,
              lastUpdate := 1010\<rparr>,
          [PostMessage 1
             (Data ''A'' [JObj [(''positionId'', JStr ''1''), (''status'', JStr ''success'')]] True)])"
  by code_simp

text \<open>
  C4, amended. During the snapshot phase, when a non-empty end token is configured,
  the end-token check comes before any JSON parsing: every body that contains
  "success" in any letter case ends the snapshot, whatever \<^verbatim>\<open>JSON.parse\<close> would make
  of it, and no data event is posted for it.
\<close>

theorem success_checked_before_parse:
  assumes "snapshotEndToken (config p) = Some T" and "T \<noteq> []"
    and "\<not> isSnapshotComplete p"
    and "includes_str (toLowerCase B) ''success''"
  shows "handleMessage pf now B p =
           (p\<lparr>statistics := (statistics p)\<lparr>bytesReceived := bytesReceived (statistics p) + length (trim B),
                                           mode := Mode_realtime\<rparr>,
              isSnapshotComplete := True\<rparr>,
            broadcast p (SnapshotComplete (providerId p) (snapshotRowsReceived (statistics p))
                           (int now - int (snapshotStartTime p))))
       \<and> filter is_data (snd (handleMessage pf now B p)) = []
       \<and> snapshot (fst (handleMessage pf now B p)) = snapshot p"
proof -
  have "includes_str (toLowerCase (trim B)) ''success''"
    using assms(4) by (rule includes_success_trim)
  then have e: "isEndToken (config p) B"
    using assms(1,2) by (simp add: isEndToken_iff)
  have d: "filter is_data (broadcast p (SnapshotComplete a b c)) = []" for a b c
    by (auto simp: broadcast_def filter_empty_conv)
  show ?thesis
    using handleMessage_end[OF assms(3) e, of pf now] by (simp add: d)
qed

theorem success_checked_before_parse_witness:
  "snapshotEndToken (config (example_provider example_config)) = Some ''Success''
   \<and> \<not> isSnapshotComplete (example_provider example_config)
   \<and> includes_str (toLowerCase ''{\"id\":\"1\",\"status\":\"SUCCESS\"}'') ''success''
   \<and> JSON_parse concrete_platform ''{\"id\":\"1\",\"status\":\"SUCCESS\"}''
        = Some (JObj [(''id'', JStr ''1''), (''status'', JStr ''SUCCESS'')])
   \<and> snd (handleMessage concrete_platform 1010 ''{\"id\":\"1\",\"status\":\"SUCCESS\"}''
             (example_provider example_config))
        = [PostMessage 1 (SnapshotComplete ''A'' 0 5)]"
proof -
  have h1: "snapshotEndToken (config (example_provider example_config)) = Some ''Success''"
    by (simp add: example_provider_simps example_config_simps)
  have h2: "''Success'' \<noteq> []" by simp
  have h3: "\<not> isSnapshotComplete (example_provider example_config)"
    by (simp add: example_provider_simps)
  have h4: "includes_str (toLowerCase ''{\"id\":\"1\",\"status\":\"SUCCESS\"}'') ''success''"
    by code_simp
  have j: "JSON_parse concrete_platform ''{\"id\":\"1\",\"status\":\"SUCCESS\"}''
        = Some (JObj [(''id'', JStr ''1''), (''status'', JStr ''SUCCESS'')])"
    by code_simp
  from success_checked_before_parse [OF h1 h2 h3 h4, of concrete_platform 1010] h1 h3 h4 j
  show ?thesis by (simp add: example_provider_simps broadcast_def)
qed

text \<open>
  C5, as stated, fails in its last part: a frame that is not JSON is dropped without
  an event, but the counter \<^verbatim>\<open>bytesReceived\<close> has already been raised by the length
  of its trimmed body, so the session state is not unchanged.
\<close>

theorem non_json_frame_counts_bytes:
  "\<not> isEndToken (config (example_provider example_config)) ''  hello ''
   \<and> JSON_parse concrete_platform (trim ''  hello '') = None
   \<and> snd (handleMessage concrete_platform 1010 ''  hello '' (example_provider example_config)) = []
   \<and> bytesReceived (statistics (example_provider example_config)) = 0
   \<and> bytesReceived (statistics (fst (handleMessage concrete_platform 1010 ''  hello ''
         (example_provider example_config)))) = 5"
  by code_simp

lemma forEach_update_first_throw:
  "fst (forEach_update pf kc us m) = first_throw pf kc us"
  by (induction us arbitrary: m) (simp_all split: sum.splits option.splits)

lemma applyUpdatesToSnapshot_first_throw:
  "fst (applyUpdatesToSnapshot pf now us p)
     = first_throw pf (or_default (keyColumn (config p)) ''positionId'') us"
  by (simp add: applyUpdatesToSnapshot_def Let_def forEach_update_first_throw split: option.splits)

text \<open>
  C5, amended. For a frame body that is not taken as the end of the snapshot:
  if the trimmed body parses as JSON, the frame is taken as data records, the
  elements of a JSON array (N for an array of length N) or else the one parsed
  value (one record for a JSON object): the row counter of the current phase grows
  by that number, and one data event with these records is broadcast, unless reading
  the key of a record throws (the record is \<^verbatim>\<open>null\<close>, or its key cannot be made a
  string), in which case an error event with the message of the exception is
  broadcast in its place; if parsing fails, the frame is dropped: no event is
  posted, no error raised, and the provider is unchanged except that
  \<^verbatim>\<open>bytesReceived\<close> has grown by the length of the trimmed body.
\<close>

theorem frame_data_or_ignored:
  fixes pf :: "'n platform" and ms :: "(string \<times> 'n json) list" and xs :: "'n json list"
  assumes "isSnapshotComplete p \<or> \<not> isEndToken (config p) B"
  shows "(JSON_parse pf (trim B) = Some d \<longrightarrow>
            statistics (fst (handleMessage pf now B p))
              = statistics (count_rows (length (positions_of d))
                  (p\<lparr>statistics := (statistics p)\<lparr>bytesReceived := bytesReceived (statistics p) + length (trim B)\<rparr>\<rparr>))
            \<and> snd (handleMessage pf now B p)
              = broadcast p
                  (case first_throw pf (or_default (keyColumn (config p)) ''positionId'') (positions_of d) of
                     None \<Rightarrow> Data (providerId p) (positions_of d) (\<not> isSnapshotComplete p)
                   | Some e \<Rightarrow> ErrorEvent (providerId p) (error_message e)))
       \<and> positions_of (JObj ms) = [JObj ms]
       \<and> positions_of (JArr xs) = xs
       \<and> (JSON_parse pf (trim B) = None \<longrightarrow>
            handleMessage pf now B p
              = (p\<lparr>statistics := (statistics p)\<lparr>bytesReceived := bytesReceived (statistics p) + length (trim B)\<rparr>\<rparr>, []))"
proof (intro conjI impI)
  assume j: "JSON_parse pf (trim B) = Some d"
  show "statistics (fst (handleMessage pf now B p))
              = statistics (count_rows (length (positions_of d))
                  (p\<lparr>statistics := (statistics p)\<lparr>bytesReceived := bytesReceived (statistics p) + length (trim B)\<rparr>\<rparr>))"
    using handleMessage_data[OF assms j, of now]
    by (simp add: Let_def applyUpdatesToSnapshot_frame)
  show "snd (handleMessage pf now B p)
              = broadcast p
                  (case first_throw pf (or_default (keyColumn (config p)) ''positionId'') (positions_of d) of
                     None \<Rightarrow> Data (providerId p) (positions_of d) (\<not> isSnapshotComplete p)
                   | Some e \<Rightarrow> ErrorEvent (providerId p) (error_message e))"
    using handleMessage_data[OF assms j, of now]
    by (simp add: Let_def broadcast_def applyUpdatesToSnapshot_frame count_rows_frame
        applyUpdatesToSnapshot_first_throw)
next
  show "positions_of (JObj ms) = [JObj ms]" by (simp add: positions_of_def)
  show "positions_of (JArr xs) = xs" by (simp add: positions_of_def)
next
  assume "JSON_parse pf (trim B) = None"
  then show "handleMessage pf now B p
              = (p\<lparr>statistics := (statistics p)\<lparr>bytesReceived := bytesReceived (statistics p) + length (trim B)\<rparr>\<rparr>, [])"
    using assms by (rule handleMessage_ignored[rotated])
qed

theorem frame_data_or_ignored_witness:
  "\<not> isEndToken (config (example_provider example_config)) ''{\"id\":\"1\",\"v\":10}''
   \<and> JSON_parse concrete_platform (trim ''{\"id\":\"1\",\"v\":10}'')
        = Some (JObj [(''id'', JStr ''1''), (''v'', JNum 10)])
   \<and> snd (handleMessage concrete_platform 1010 ''{\"id\":\"1\",\"v\":10}'' (example_provider example_config))
        = [PostMessage 1 (Data ''A'' [JObj [(''id'', JStr ''1''), (''v'', JNum 10)]] True)]
   \<and> JSON_parse concrete_platform (trim ''[{\"id\":\"1\"},{\"id\":\"2\"}]'')
        = Some (JArr [JObj [(''id'', JStr ''1'')], JObj [(''id'', JStr ''2'')]])
   \<and> snd (handleMessage concrete_platform 1010 ''[{\"id\":\"1\"},{\"id\":\"2\"}]'' (example_provider example_config))
        = [PostMessage 1 (Data ''A'' [JObj [(''id'', JStr ''1'')], JObj [(''id'', JStr ''2'')]] True)]
   \<and> JSON_parse concrete_platform (trim ''{\"id\":{\"toString\":1},\"v\":1}'')
        = Some (JObj [(''id'', JObj [(''toString'', JNum 1)]), (''v'', JNum 1)])
   \<and> snd (handleMessage concrete_platform 1010 ''{\"id\":{\"toString\":1},\"v\":1}'' (example_provider example_config))
        = [PostMessage 1 (ErrorEvent ''A'' ''Cannot convert object to primitive value'')]
   \<and> JSON_parse concrete_platform (trim ''  hello '') = None
   \<and> handleMessage concrete_platform 1010 ''  hello '' (example_provider example_config)
        = ((example_provider example_config)
             \<lparr>statistics := (statistics (example_provider example_config))\<lparr>bytesReceived := 5\<rparr>\<rparr>, [])"
proof -
  let ?p = "example_provider example_config"
  let ?o = "JObj [(''id'', JStr ''1''), (''v'', JNum (10::int))]"
  let ?a = "[JObj [(''id'', JStr ''1'')], JObj [(''id'', JStr ''2'')]] :: int json list"
  let ?t = "JObj [(''id'', JObj [(''toString'', JNum 1)]), (''v'', JNum (1::int))]"
  have e1: "isSnapshotComplete ?p \<or> \<not> isEndToken (config ?p) ''{\"id\":\"1\",\"v\":10}''"
    and e2: "isSnapshotComplete ?p \<or> \<not> isEndToken (config ?p) ''[{\"id\":\"1\"},{\"id\":\"2\"}]''"
    and e3: "isSnapshotComplete ?p \<or> \<not> isEndToken (config ?p) ''  hello ''"
    and e4: "isSnapshotComplete ?p \<or> \<not> isEndToken (config ?p) ''{\"id\":{\"toString\":1},\"v\":1}''"
    unfolding example_provider_simps by code_simp+
  have j1: "JSON_parse concrete_platform (trim ''{\"id\":\"1\",\"v\":10}'') = Some ?o"
    and j2: "JSON_parse concrete_platform (trim ''[{\"id\":\"1\"},{\"id\":\"2\"}]'') = Some (JArr ?a)"
    and j3: "JSON_parse concrete_platform (trim ''  hello '') = None"
    and j4: "JSON_parse concrete_platform (trim ''{\"id\":{\"toString\":1},\"v\":1}'') = Some ?t"
    by code_simp+
  have k: "or_default (keyColumn (config ?p)) ''positionId'' = ''id''"
    by (simp add: example_provider_simps example_config_simps or_default_def)
  have t1: "first_throw concrete_platform ''id'' (positions_of ?o) = None"
    and t2: "first_throw concrete_platform ''id'' (positions_of (JArr ?a)) = None"
    and t4: "first_throw concrete_platform ''id'' (positions_of ?t)
               = Some (TypeError ''Cannot convert object to primitive value'')"
    by code_simp+
  have b1: "broadcast ?p (Data (providerId ?p) (positions_of ?o) (\<not> isSnapshotComplete ?p))
              = [PostMessage 1 (Data ''A'' [?o] True)]"
    and b2: "broadcast ?p (Data (providerId ?p) (positions_of (JArr ?a)) (\<not> isSnapshotComplete ?p))
              = [PostMessage 1 (Data ''A'' ?a True)]"
    and b4: "broadcast ?p (ErrorEvent (providerId ?p)
                (error_message (TypeError ''Cannot convert object to primitive value'')))
              = [PostMessage 1 (ErrorEvent ''A'' ''Cannot convert object to primitive value'')]"
    by (simp_all add: example_provider_simps broadcast_def positions_of_def)
  have s: "\<not> isSnapshotComplete ?p" "bytesReceived (statistics ?p) = 0" "length (trim ''  hello '') = 5"
    by (simp_all add: example_provider_simps trim_def isWhiteSpace_def)
  note w1 = frame_data_or_ignored [OF e1, where pf = concrete_platform and now = 1010,
      THEN conjunct1, THEN mp, OF j1, THEN conjunct2]
  note w2 = frame_data_or_ignored [OF e2, where pf = concrete_platform and now = 1010,
      THEN conjunct1, THEN mp, OF j2, THEN conjunct2]
  note w4 = frame_data_or_ignored [OF e4, where pf = concrete_platform and now = 1010,
      THEN conjunct1, THEN mp, OF j4, THEN conjunct2]
  note w3 = frame_data_or_ignored [OF e3, where pf = concrete_platform and now = 1010,
      THEN conjunct2, THEN conjunct2, THEN conjunct2, THEN mp, OF j3]
  have e: "\<not> isEndToken (config ?p) ''{\"id\":\"1\",\"v\":10}''"
    using e1 s(1) by blast
  have r1: "snd (handleMessage concrete_platform 1010 ''{\"id\":\"1\",\"v\":10}'' ?p)
              = [PostMessage 1 (Data ''A'' [?o] True)]"
    using w1 unfolding k t1 by (simp only: option.case b1)
  have r2: "snd (handleMessage concrete_platform 1010 ''[{\"id\":\"1\"},{\"id\":\"2\"}]'' ?p)
              = [PostMessage 1 (Data ''A'' ?a True)]"
    using w2 unfolding k t2 by (simp only: option.case b2)
  have r4: "snd (handleMessage concrete_platform 1010 ''{\"id\":{\"toString\":1},\"v\":1}'' ?p)
              = [PostMessage 1 (ErrorEvent ''A'' ''Cannot convert object to primitive value'')]"
    using w4 unfolding k t4 by (simp only: option.case b4)
  show ?thesis
    using e j1 j2 j3 j4 r1 r2 r4 w3 [unfolded s(2,3)]
    by (intro conjI) simp_all
qed

subsection \<open>The snapshot cache over the life of a connection\<close>

lemma map_fst_Map_set:
  "map fst (Map_set k v m) = (if k \<in> set (map fst m) then map fst m else map fst m @ [k])"
proof (induction m)
  case Nil
  then show ?case by simp
next
  case (Cons kv m)
  obtain k' v' where kv: "kv = (k', v')" by (cases kv)
  show ?case using Cons by (simp add: kv)
qed

lemma Map_set_keys: "fst ` set (Map_set k v m) = insert k (fst ` set m)"
proof -
  have "set (map fst (Map_set k v m)) = insert k (set (map fst m))"
    unfolding map_fst_Map_set by auto
  then show ?thesis by simp
qed

lemma length_Map_set:
  "length (Map_set k v m) = (if k \<in> fst ` set m then length m else Suc (length m))"
proof -
  have "length (map fst (Map_set k v m)) = (if k \<in> fst ` set m then length m else Suc (length m))"
    unfolding map_fst_Map_set by simp
  then show ?thesis by simp
qed

lemma distinct_Map_set:
  "distinct (map fst m) \<Longrightarrow> distinct (map fst (Map_set k v m))"
  unfolding map_fst_Map_set by simp

lemma Map_get_Map_set: "Map_get (Map_set k v m) k = Some v"
  by (induction m) auto

lemma forEach_update_step:
  "forEach_update pf kc (u # us) m =
     (case read_key pf kc u of
        Inl e \<Rightarrow> (Some e, m)
      | Inr x \<Rightarrow> forEach_update pf kc us
                  (case key_of pf kc u of None \<Rightarrow> m | Some k \<Rightarrow> Map_set k u m))"
  by (simp add: key_of_def split: sum.splits option.splits)

declare forEach_update.simps(2) [simp del]

lemma key_of_Inl: "read_key pf kc u = Inl e \<Longrightarrow> key_of pf kc u = None"
  by (simp add: key_of_def)

lemma forEach_update_length_le:
  "length (snd (forEach_update pf kc us m)) \<le> length m + length us"
proof (induction us arbitrary: m)
  case Nil
  then show ?case by simp
next
  case (Cons u us)
  let ?m = "case key_of pf kc u of None \<Rightarrow> m | Some k \<Rightarrow> Map_set k u m"
  have "length ?m \<le> Suc (length m)"
    by (simp add: length_Map_set split: option.splits)
  then show ?case
    using Cons[of ?m] by (cases "read_key pf kc u") (simp_all add: forEach_update_step)
qed

lemma forEach_update_keys:
  "list_all (\<lambda>u. key_of pf kc u \<noteq> None) us \<Longrightarrow>
   fst (forEach_update pf kc us m) = None
   \<and> fst ` set (snd (forEach_update pf kc us m)) = fst ` set m \<union> set (map (the \<circ> key_of pf kc) us)"
proof (induction us arbitrary: m)
  case Nil
  then show ?case by simp
next
  case (Cons u us)
  then obtain k where k: "key_of pf kc u = Some k" by auto
  then obtain x where x: "read_key pf kc u = Inr x"
    by (cases "read_key pf kc u") (simp_all add: key_of_def)
  have "list_all (\<lambda>u. key_of pf kc u \<noteq> None) us" using Cons.prems by simp
  from Cons.IH[OF this, of "Map_set k u m"] show ?case
    by (simp add: forEach_update_step k x Map_set_keys Un_commute insert_commute)
qed

lemma forEach_update_distinct:
  "distinct (map fst m) \<Longrightarrow> distinct (map fst (snd (forEach_update pf kc us m)))"
proof (induction us arbitrary: m)
  case Nil
  then show ?case by simp
next
  case (Cons u us)
  let ?m = "case key_of pf kc u of None \<Rightarrow> m | Some k \<Rightarrow> Map_set k u m"
  have "distinct (map fst ?m)"
    using Cons.prems by (simp add: distinct_Map_set split: option.splits)
  from Cons.IH[OF this] Cons.prems show ?case
    by (cases "read_key pf kc u") (simp_all add: forEach_update_step)
qed

lemma forEach_update_length_eq:
  "length (snd (forEach_update pf kc us m)) = length m + length us \<longleftrightarrow>
     list_all (\<lambda>u. key_of pf kc u \<noteq> None) us
     \<and> distinct (map (the \<circ> key_of pf kc) us)
     \<and> set (map (the \<circ> key_of pf kc) us) \<inter> fst ` set m = {}"
proof (induction us arbitrary: m)
  case Nil
  then show ?case by simp
next
  case (Cons u us)
  show ?case
  proof (cases "read_key pf kc u")
    case (Inl e)
    then show ?thesis by (simp add: forEach_update_step key_of_Inl)
  next
    case (Inr x)
    show ?thesis
    proof (cases "key_of pf kc u")
      case None
      have "length (snd (forEach_update pf kc us m)) \<le> length m + length us"
        by (rule forEach_update_length_le)
      then show ?thesis using Inr None by (simp add: forEach_update_step)
    next
      case (Some k)
      show ?thesis
      proof (cases "k \<in> fst ` set m")
        case True
        have "length (snd (forEach_update pf kc us (Map_set k u m))) \<le> length (Map_set k u m) + length us"
          by (rule forEach_update_length_le)
        then have "length (snd (forEach_update pf kc us (Map_set k u m))) \<le> length m + length us"
          using True by (simp add: length_Map_set)
        then show ?thesis using Inr Some True by (simp add: forEach_update_step)
      next
        case False
        have l: "length (Map_set k u m) = Suc (length m)"
          using False by (simp add: length_Map_set)
        have "length (snd (forEach_update pf kc (u # us) m)) = length m + length (u # us)
          \<longleftrightarrow> length (snd (forEach_update pf kc us (Map_set k u m))) = length (Map_set k u m) + length us"
          using Inr Some by (simp add: forEach_update_step l)
        also have "\<dots> \<longleftrightarrow> list_all (\<lambda>u. key_of pf kc u \<noteq> None) us
             \<and> distinct (map (the \<circ> key_of pf kc) us)
             \<and> set (map (the \<circ> key_of pf kc) us) \<inter> fst ` set (Map_set k u m) = {}"
          by (rule Cons.IH)
        also have "\<dots> \<longleftrightarrow> list_all (\<lambda>u. key_of pf kc u \<noteq> None) (u # us)
             \<and> distinct (map (the \<circ> key_of pf kc) (u # us))
             \<and> set (map (the \<circ> key_of pf kc) (u # us)) \<inter> fst ` set m = {}"
          using Some False by (auto simp add: Map_set_keys)
        finally show ?thesis .
      qed
    qed
  qed
qed

lemma forEach_update_keys_mono:
  "fst ` set m \<subseteq> fst ` set (snd (forEach_update pf kc us m))"
proof (induction us arbitrary: m)
  case Nil
  then show ?case by simp
next
  case (Cons u us)
  let ?m = "case key_of pf kc u of None \<Rightarrow> m | Some k \<Rightarrow> Map_set k u m"
  have "fst ` set m \<subseteq> fst ` set ?m"
    by (auto simp: Map_set_keys split: option.splits)
  then show ?case
    using Cons[of ?m] by (cases "read_key pf kc u") (auto simp add: forEach_update_step)
qed

lemma handleMessage_keys_mono:
  "fst ` set (snapshot p) \<subseteq> fst ` set (snapshot (fst (handleMessage pf now B p)))"
proof (cases "\<not> isSnapshotComplete p \<and> isEndToken (config p) B")
  case True
  then show ?thesis by (simp add: handleMessage_end)
next
  case False
  then have c: "isSnapshotComplete p \<or> \<not> isEndToken (config p) B" by blast
  show ?thesis
  proof (cases "JSON_parse pf (trim B)")
    case None
    then show ?thesis using c by (simp add: handleMessage_ignored)
  next
    case (Some d)
    show ?thesis
      using forEach_update_keys_mono[of "snapshot p" pf
          "or_default (keyColumn (config p)) ''positionId''" "positions_of d"]
      by (simp add: handleMessage_data[OF c Some] Let_def applyUpdatesToSnapshot_def count_rows_frame
          split: option.splits)
  qed
qed

text \<open>
  C7. The \<^verbatim>\<open>onConnect\<close> callback, which starts every snapshot cycle, empties the
  cache and resets the snapshot row counter. The callbacks for a transport
  disconnect and for transport errors, and the \<^verbatim>\<open>disconnect()\<close> method, leave the
  cache as it is, so \<^verbatim>\<open>getSnapshot()\<close> returns the same records after them; a frame
  only adds or replaces entries. A get-snapshot request after a transport disconnect
  is answered with the records cached before it.
\<close>

theorem cache_cleared_on_connect_only:
  "getSnapshot (fst (snd (onConnect now c p))) = []
   \<and> snapshotRowsReceived (statistics (fst (snd (onConnect now c p)))) = 0
   \<and> \<not> isSnapshotComplete (fst (snd (onConnect now c p)))
   \<and> getSnapshot (fst (onDisconnect p)) = getSnapshot p
   \<and> getSnapshot (fst (onStompError header p)) = getSnapshot p
   \<and> getSnapshot (fst (onWebSocketError p)) = getSnapshot p
   \<and> getSnapshot (fst (disconnect p)) = getSnapshot p
   \<and> fst ` set (snapshot p) \<subseteq> fst ` set (snapshot (fst (handleMessage pf now B p)))
   \<and> (providers w pid = Some p \<longrightarrow>
        handleGetSnapshot pid (fst (on_provider pid onDisconnect w)) = getSnapshot p
        \<and> snd (handlePortMessage pf now random portId port (GetSnapshot i pid)
                  (fst (on_provider pid onDisconnect w)))
            = [PostMessage port (Response i (Data_body (getSnapshot p)))])"
proof -
  have 1: "getSnapshot (fst (snd (onConnect now c p))) = []
     \<and> snapshotRowsReceived (statistics (fst (snd (onConnect now c p)))) = 0
     \<and> \<not> isSnapshotComplete (fst (snd (onConnect now c p)))"
    by (simp add: onConnect_def Let_def getSnapshot_def Map_values_def split: option.splits)
  have 2: "getSnapshot (fst (onDisconnect p)) = getSnapshot p"
    by (simp add: onDisconnect_def Let_def getSnapshot_def)
  have 3: "getSnapshot (fst (onStompError header p)) = getSnapshot p"
    "getSnapshot (fst (onWebSocketError p)) = getSnapshot p"
    "getSnapshot (fst (disconnect p)) = getSnapshot p"
    by (simp_all add: onStompError_def onWebSocketError_def disconnect_def Let_def getSnapshot_def)
  have 4: "providers w pid = Some p \<longrightarrow>
        handleGetSnapshot pid (fst (on_provider pid onDisconnect w)) = getSnapshot p
        \<and> snd (handlePortMessage pf now random portId port (GetSnapshot i pid)
                  (fst (on_provider pid onDisconnect w)))
            = [PostMessage port (Response i (Data_body (getSnapshot p)))]"
    using 2 by (simp add: on_provider_def handleGetSnapshot_def handlePortMessage_def Let_def)
  show ?thesis
    using 1 2 3 4 handleMessage_keys_mono[of p pf now B] by blast
qed

theorem cache_cleared_on_connect_only_witness:
  "providers (connected_worker example_config) ''A'' = Some (example_provider example_config)
   \<and> getSnapshot (fst (handleMessage concrete_platform 1010 ''{\"id\":\"1\",\"v\":10}''
                         (example_provider example_config)))
       = [JObj [(''id'', JStr ''1''), (''v'', JNum 10)]]
   \<and> getSnapshot (fst (onDisconnect (fst (handleMessage concrete_platform 1010 ''{\"id\":\"1\",\"v\":10}''
                         (example_provider example_config)))))
       = [JObj [(''id'', JStr ''1''), (''v'', JNum 10)]]
   \<and> handleGetSnapshot ''A'' (fst (on_provider ''A'' onDisconnect (connected_worker example_config)))
       = getSnapshot (example_provider example_config)"
proof -
  have v: "getSnapshot (fst (handleMessage concrete_platform 1010 ''{\"id\":\"1\",\"v\":10}''
                         (example_provider example_config)))
       = [JObj [(''id'', JStr ''1''), (''v'', JNum 10)]]"
    by code_simp
  note t1 = cache_cleared_on_connect_only
    [where p = "fst (handleMessage concrete_platform 1010 ''{\"id\":\"1\",\"v\":10}''
                         (example_provider example_config))", THEN conjunct2, THEN conjunct2,
      THEN conjunct2, THEN conjunct1]
  note t2 = cache_cleared_on_connect_only
    [where p = "example_provider example_config" and w = "connected_worker example_config"
       and pid = "''A''", THEN conjunct2, THEN conjunct2, THEN conjunct2, THEN conjunct2,
      THEN conjunct2, THEN conjunct2, THEN conjunct2, THEN conjunct2, THEN mp,
      OF example_provider_reached(1), THEN conjunct1]
  show ?thesis
    using example_provider_reached(1) v t1 t2 by simp
qed

subsection \<open>Size of the snapshot cache\<close>

lemma keys_comb:
  "M1 = M \<union> set ku \<Longrightarrow>
   ((distinct ku \<and> set ku \<inter> M = {}) \<and> (distinct kr \<and> set kr \<inter> M1 = {}))
     \<longleftrightarrow> (distinct (ku @ kr) \<and> set (ku @ kr) \<inter> M = {})"
  by auto

lemma distinct_map_the:
  assumes "None \<notin> set (map f us)"
  shows "distinct (map (the \<circ> f) us) \<longleftrightarrow> distinct (map f us)"
proof -
  have "inj_on (the \<circ> f) (set us) \<longleftrightarrow> inj_on f (set us)"
  proof
    assume i: "inj_on (the \<circ> f) (set us)"
    show "inj_on f (set us)"
    proof (rule inj_onI)
      fix x y assume x: "x \<in> set us" and y: "y \<in> set us" and e: "f x = f y"
      then have "(the \<circ> f) x = (the \<circ> f) y" by simp
      then show "x = y" using i x y by (meson inj_onD)
    qed
  next
    assume i: "inj_on f (set us)"
    show "inj_on (the \<circ> f) (set us)"
    proof (rule inj_onI)
      fix x y assume x: "x \<in> set us" and y: "y \<in> set us" and e: "(the \<circ> f) x = (the \<circ> f) y"
      have "f x \<noteq> None" "f y \<noteq> None" using assms x y by (metis image_eqI set_map)+
      then have "f x = f y" using e by (metis comp_apply option.expand)
      then show "x = y" using i x y by (meson inj_onD)
    qed
  qed
  then show ?thesis by (simp add: distinct_map)
qed

lemma keys_all_distinct:
  "list_all (\<lambda>u. f u \<noteq> None) us \<and> distinct (map (the \<circ> f) us)
     \<longleftrightarrow> None \<notin> set (map f us) \<and> distinct (map f us)"
proof -
  have a: "list_all (\<lambda>u. f u \<noteq> None) us \<longleftrightarrow> None \<notin> set (map f us)"
    unfolding list_all_iff set_map by (metis image_iff)
  show ?thesis
    unfolding a using distinct_map_the[of f us] by blast
qed

lemma applyUpdatesToSnapshot_snapshot:
  "snapshot (snd (applyUpdatesToSnapshot pf now us p))
     = snd (forEach_update pf (or_default (keyColumn (config p)) ''positionId'') us (snapshot p))"
  by (simp add: applyUpdatesToSnapshot_def Let_def split: option.splits)

lemma applyBatches_length_le:
  "length (snapshot (applyBatches pf bs p)) \<le> length (snapshot p) + sum_list (map (length \<circ> snd) bs)"
proof (induction bs arbitrary: p)
  case Nil
  then show ?case by simp
next
  case (Cons b bs)
  obtain now us where b: "b = (now, us)" by (cases b)
  let ?p = "snd (applyUpdatesToSnapshot pf now us p)"
  have "length (snapshot ?p) \<le> length (snapshot p) + length us"
    by (simp add: applyUpdatesToSnapshot_snapshot forEach_update_length_le)
  then show ?case using Cons[of ?p] by (simp add: b)
qed

lemma applyBatches_length_eq:
  assumes "kc = or_default (keyColumn (config p)) ''positionId''"
  shows "length (snapshot (applyBatches pf bs p)) = length (snapshot p) + sum_list (map (length \<circ> snd) bs)
     \<longleftrightarrow> list_all (\<lambda>u. key_of pf kc u \<noteq> None) (concat (map snd bs))
          \<and> distinct (map (the \<circ> key_of pf kc) (concat (map snd bs)))
          \<and> set (map (the \<circ> key_of pf kc) (concat (map snd bs))) \<inter> fst ` set (snapshot p) = {}"
  using assms
proof (induction bs arbitrary: p)
  case Nil
  then show ?case by simp
next
  case (Cons b bs)
  obtain now us where b: "b = (now, us)" by (cases b)
  let ?p = "snd (applyUpdatesToSnapshot pf now us p)"
  let ?rest = "concat (map snd bs)"
  let ?K = "\<lambda>xs. map (the \<circ> key_of pf kc) xs"
  have c: "kc = or_default (keyColumn (config ?p)) ''positionId''"
    using Cons.prems by (simp add: applyUpdatesToSnapshot_frame)
  have s: "snapshot ?p = snd (forEach_update pf kc us (snapshot p))"
    using Cons.prems by (simp add: applyUpdatesToSnapshot_snapshot)
  have le1: "length (snapshot ?p) \<le> length (snapshot p) + length us"
    unfolding s by (rule forEach_update_length_le)
  have le2: "length (snapshot (applyBatches pf bs ?p)) \<le> length (snapshot ?p) + sum_list (map (length \<circ> snd) bs)"
    by (rule applyBatches_length_le)
  have e: "concat (map snd ((now, us) # bs)) = us @ ?rest" by simp
  have "length (snapshot (applyBatches pf ((now, us) # bs) p))
          = length (snapshot p) + sum_list (map (length \<circ> snd) ((now, us) # bs))
      \<longleftrightarrow> length (snapshot ?p) = length (snapshot p) + length us
          \<and> length (snapshot (applyBatches pf bs ?p)) = length (snapshot ?p) + sum_list (map (length \<circ> snd) bs)"
    using le1 le2 by auto
  also have "\<dots> \<longleftrightarrow>
        (list_all (\<lambda>u. key_of pf kc u \<noteq> None) us \<and> distinct (?K us)
           \<and> set (?K us) \<inter> fst ` set (snapshot p) = {})
      \<and> (list_all (\<lambda>u. key_of pf kc u \<noteq> None) ?rest \<and> distinct (?K ?rest)
           \<and> set (?K ?rest) \<inter> fst ` set (snapshot ?p) = {})"
    using Cons.IH[OF c] by (simp only: s forEach_update_length_eq)
  also have "\<dots> \<longleftrightarrow>
        list_all (\<lambda>u. key_of pf kc u \<noteq> None) (us @ ?rest) \<and> distinct (?K (us @ ?rest))
           \<and> set (?K (us @ ?rest)) \<inter> fst ` set (snapshot p) = {}"
  proof (cases "list_all (\<lambda>u. key_of pf kc u \<noteq> None) us")
    case False
    then show ?thesis by simp
  next
    case True
    have k: "fst ` set (snapshot ?p) = fst ` set (snapshot p) \<union> set (?K us)"
      unfolding s using forEach_update_keys[OF True] by blast
    have "(distinct (?K us) \<and> set (?K us) \<inter> fst ` set (snapshot p) = {})
            \<and> (distinct (?K ?rest) \<and> set (?K ?rest) \<inter> fst ` set (snapshot ?p) = {})
          \<longleftrightarrow> distinct (?K us @ ?K ?rest) \<and> set (?K us @ ?K ?rest) \<inter> fst ` set (snapshot p) = {}"
      by (rule keys_comb[OF k])
    then show ?thesis
      using True unfolding map_append list_all_append by blast
  qed
  finally show ?case
    unfolding b e .
qed

text \<open>
  Keys on the concrete platform: a key that is an object with a member \<^verbatim>\<open>toString\<close>
  of its own, or an array that holds one, cannot be made a string; a \<^verbatim>\<open>null\<close> record
  has no properties; a key that is \<^verbatim>\<open>null\<close> or missing is skipped; the length of an
  array or a string, an element, and an inherited member are keys as well.
\<close>

lemma read_key_examples:
  "read_key concrete_platform ''id'' (JObj [(''id'', JObj [(''toString'', JNum 1)]), (''v'', JNum 1)])
     = Inl (TypeError ''Cannot convert object to primitive value'')"
  "read_key concrete_platform ''id'' (JObj [(''id'', JArr [JNum 1, JObj [(''toString'', JNull)]])])
     = Inl (TypeError ''Cannot convert object to primitive value'')"
  "read_key concrete_platform ''id'' (JObj [(''id'', JObj [(''valueOf'', JNum 1)])])
     = Inr (Some ''[object Object]'')"
  "read_key concrete_platform ''id'' (JObj [(''id'', JArr [JNum 1, JNull, JArr [JStr ''a'', JBool True]])])
     = Inr (Some ''1,,a,true'')"
  "read_key concrete_platform ''id'' JNull
     = Inl (TypeError (''Cannot read properties of null (reading '' @ [CHR 0x27] @ ''id'' @ [CHR 0x27] @ '')''))"
  "read_key concrete_platform ''id'' (JObj [(''id'', JNull)]) = Inr None"
  "read_key concrete_platform ''id'' (JObj [(''v'', JNum 1)]) = Inr None"
  "read_key concrete_platform ''id'' (JObj [(''id'', JNum 1), (''id'', JNum 2)]) = Inr (Some ''2'')"
  "read_key concrete_platform ''id'' (JNum 42) = Inr None"
  "read_key concrete_platform ''length'' (JArr [JNum 1, JNum 2]) = Inr (Some ''2'')"
  "read_key concrete_platform ''length'' (JStr ''abc'') = Inr (Some ''3'')"
  "read_key concrete_platform ''1'' (JArr [JNum 7, JNum 8]) = Inr (Some ''8'')"
  "read_key concrete_platform ''2'' (JArr [JNum 7, JNum 8]) = Inr None"
  "read_key concrete_platform ''01'' (JArr [JNum 7, JNum 8]) = Inr None"
  "read_key concrete_platform ''constructor'' (JObj [(''v'', JNum 1)])
     = Inr (Some ''function Object() { [native code] }'')"
  "read_key concrete_platform ''toString'' (JNum 42)
     = Inr (Some ''function toString() { [native code] }'')"
  by code_simp+

text \<open>
  C9, as stated, fails in its equality: a record that has no key field is counted
  in the batch but not stored, so the cache stays smaller than the number of records
  applied although no two keys are equal.
\<close>

theorem keyless_record_not_stored:
  "distinct (List.map_filter id
       (keys_of concrete_platform (example_provider example_config) [JObj [(''v'', JNum 1)]]))
   \<and> length (getSnapshot (applyBatches concrete_platform [(1010, [JObj [(''v'', JNum 1)]])]
                 (example_provider example_config))) = 0
   \<and> sum_list (map (length \<circ> snd) [(1010 :: nat, [JObj [(''v'', JNum (1 :: int))]])]) = 1"
  by code_simp

text \<open>
  C9, amended. For every sequence of batches applied to an empty cache, the number
  of records \<^verbatim>\<open>getSnapshot()\<close> returns is at most the number of records applied, with
  equality if and only if every applied record is stored under a key (its key is
  neither \<^verbatim>\<open>undefined\<close> nor \<^verbatim>\<open>null\<close>, and reading it and making it a string does not
  throw) and the stringified keys are pairwise distinct. Applying a record whose key
  is already in the cache stores that record under the key and leaves the size of
  the cache unchanged.
\<close>

theorem cache_size_bound:
  assumes "snapshot p = []"
  shows "length (getSnapshot (applyBatches pf bs p)) \<le> sum_list (map (length \<circ> snd) bs)
       \<and> (length (getSnapshot (applyBatches pf bs p)) = sum_list (map (length \<circ> snd) bs)
            \<longleftrightarrow> None \<notin> set (keys_of pf p (concat (map snd bs)))
                 \<and> distinct (keys_of pf p (concat (map snd bs))))
       \<and> (key_of pf (or_default (keyColumn (config q)) ''positionId'') r = Some k
            \<and> k \<in> fst ` set (snapshot q) \<longrightarrow>
              length (getSnapshot (snd (applyUpdatesToSnapshot pf now [r] q))) = length (getSnapshot q)
              \<and> Map_get (snapshot (snd (applyUpdatesToSnapshot pf now [r] q))) k = Some r)"
proof (intro conjI impI)
  show "length (getSnapshot (applyBatches pf bs p)) \<le> sum_list (map (length \<circ> snd) bs)"
    using applyBatches_length_le[of pf bs p] assms by (simp add: getSnapshot_def Map_values_def)
  show "length (getSnapshot (applyBatches pf bs p)) = sum_list (map (length \<circ> snd) bs)
            \<longleftrightarrow> None \<notin> set (keys_of pf p (concat (map snd bs)))
                 \<and> distinct (keys_of pf p (concat (map snd bs)))"
    using applyBatches_length_eq[OF refl, of pf bs p] assms
      keys_all_distinct[of "key_of pf (or_default (keyColumn (config p)) ''positionId'')"
        "concat (map snd bs)"]
    by (simp add: getSnapshot_def Map_values_def keys_of_def)
next
  assume a: "key_of pf (or_default (keyColumn (config q)) ''positionId'') r = Some k
            \<and> k \<in> fst ` set (snapshot q)"
  then obtain x where x: "read_key pf (or_default (keyColumn (config q)) ''positionId'') r = Inr x"
    by (cases "read_key pf (or_default (keyColumn (config q)) ''positionId'') r") (simp_all add: key_of_def)
  have s: "snapshot (snd (applyUpdatesToSnapshot pf now [r] q)) = Map_set k r (snapshot q)"
    using a x by (simp add: applyUpdatesToSnapshot_snapshot forEach_update_step)
  show "length (getSnapshot (snd (applyUpdatesToSnapshot pf now [r] q))) = length (getSnapshot q)"
    using a by (simp add: getSnapshot_def Map_values_def s length_Map_set)
  show "Map_get (snapshot (snd (applyUpdatesToSnapshot pf now [r] q))) k = Some r"
    by (simp add: s Map_get_Map_set)
qed

theorem cache_size_bound_witness:
  "snapshot (example_provider example_config) = []
   \<and> distinct (keys_of concrete_platform (example_provider example_config)
         [JObj [(''id'', JStr ''1''), (''v'', JNum 10)], JObj [(''id'', JStr ''2''), (''v'', JNum 20)]])
   \<and> length (getSnapshot (applyBatches concrete_platform
         [(1010, [JObj [(''id'', JStr ''1''), (''v'', JNum 10)]]),
          (1011, [JObj [(''id'', JStr ''2''), (''v'', JNum 20)]])]
         (example_provider example_config))) = 2
   \<and> length (getSnapshot (snd (applyUpdatesToSnapshot concrete_platform 1013
         [JObj [(''id'', JStr ''1''), (''v'', JNum 99)]]
         (applyBatches concrete_platform
            [(1010, [JObj [(''id'', JStr ''1''), (''v'', JNum 10)]]),
             (1011, [JObj [(''id'', JStr ''2''), (''v'', JNum 20)]])]
            (example_provider example_config))))) = 2
   \<and> Map_get (snapshot (snd (applyUpdatesToSnapshot concrete_platform 1013
         [JObj [(''id'', JStr ''1''), (''v'', JNum 99)]]
         (applyBatches concrete_platform
            [(1010, [JObj [(''id'', JStr ''1''), (''v'', JNum 10)]]),
             (1011, [JObj [(''id'', JStr ''2''), (''v'', JNum 20)]])]
            (example_provider example_config))))) ''1''
       = Some (JObj [(''id'', JStr ''1''), (''v'', JNum 99)])"
proof -
  let ?P = "example_provider example_config"
  let ?r1 = "JObj [(''id'', JStr ''1''), (''v'', JNum (10::int))]"
  let ?r2 = "JObj [(''id'', JStr ''2''), (''v'', JNum (20::int))]"
  let ?r3 = "JObj [(''id'', JStr ''1''), (''v'', JNum (99::int))]"
  let ?bs = "[(1010::nat, [?r1]), (1011, [?r2])]"
  let ?Q = "applyBatches concrete_platform ?bs ?P"
  have h: "snapshot ?P = []" by (simp add: example_provider_simps)
  have k: "keys_of concrete_platform ?P [?r1, ?r2] = [Some ''1'', Some ''2'']"
    by code_simp
  have k3: "key_of concrete_platform
              (or_default (keyColumn (config ?Q)) ''positionId'') ?r3 = Some ''1''
            \<and> ''1'' \<in> fst ` set (snapshot ?Q)"
    by code_simp
  note t = cache_size_bound [OF h, where pf = concrete_platform and bs = ?bs and q = ?Q
      and r = ?r3 and k = "''1''" and now = 1013]
  have l: "length (getSnapshot ?Q) = 2"
    using t k by simp
  have "length (getSnapshot (snd (applyUpdatesToSnapshot concrete_platform 1013 [?r3] ?Q)))
          = length (getSnapshot ?Q)
        \<and> Map_get (snapshot (snd (applyUpdatesToSnapshot concrete_platform 1013 [?r3] ?Q))) ''1''
          = Some ?r3"
    using t k3 by blast
  then show ?thesis
    using h k l by simp
qed

subsection \<open>The gateway\<close>

text \<open>
  C2, as stated, fails: the answer to a get-statistics request for an unknown
  provider is an ordinary response whose statistics are \<^verbatim>\<open>null\<close>; it has no error
  field.
\<close>

theorem statistics_of_unknown_provider_no_error:
  "snd (handlePortMessage concrete_platform 1000 ''ab12'' ''port-1'' 1
          (GetStatistics ''x1'' ''unknown'') initial_worker)
     = [PostMessage 1 (Response ''x1'' (Statistics_body None))]
   \<and> message_error (Response ''x1'' (Statistics_body None) :: int message) = None"
  by (simp add: handlePortMessage_def handleGetStatistics_def initial_worker_def)

text \<open>
  C2, amended. A get-statistics request with correlation id X for a provider id the
  registry does not know is answered with exactly one message, posted to the
  requesting port only: a response with the same id X whose statistics are \<^verbatim>\<open>null\<close>
  and which has no error field. The registry is left as it was.
\<close>

theorem statistics_of_unknown_provider:
  assumes "providers w pid = None"
  shows "handlePortMessage pf now random portId port (GetStatistics X pid) w
           = (w, [PostMessage port (Response X (Statistics_body None))])
       \<and> message_id (Response X (Statistics_body None) :: 'n message) = Some X
       \<and> message_error (Response X (Statistics_body None) :: 'n message) = None"
  using assms by (simp add: handlePortMessage_def handleGetStatistics_def)

theorem statistics_of_unknown_provider_witness:
  "providers (initial_worker :: int worker) ''unknown'' = None
   \<and> snd (handlePortMessage concrete_platform 1000 ''ab12'' ''port-1'' 1
            (GetStatistics ''x1'' ''unknown'') initial_worker)
       = [PostMessage 1 (Response ''x1'' (Statistics_body None))]"
proof -
  have h: "providers (initial_worker :: int worker) ''unknown'' = None"
    by (simp add: initial_worker_def)
  from statistics_of_unknown_provider [OF h, of concrete_platform 1000 "''ab12''" "''port-1''" 1 "''x1''"] h
  show ?thesis by simp
qed





lemma disconnect_request_tears_down:
  assumes "providers w pid = Some p"
  shows "providers (fst (handlePortMessage pf now random portId port (Disconnect i pid) w)) pid = None
       \<and> snd (handlePortMessage pf now random portId port (Disconnect i pid) w)
           = snd (disconnect p) @ [PostMessage port (Response i Success_true)]"
  using assms by (simp add: handlePortMessage_def handleDisconnect_def Let_def)

text \<open>
  C1 on the code. Two consumers, on ports 1 and 2, are attached to provider \<^verbatim>\<open>A\<close>
  and both receive its data events. The disconnect request of the consumer on port 1
  unsubscribes and deactivates the transport and removes the provider from the
  registry, although the consumer on port 2 is still attached: a later frame reaches
  nobody, and the cached snapshot is gone for port 2.
\<close>

theorem disconnect_of_one_consumer_tears_session_down:
  "snd (on_provider ''A'' (handleMessage concrete_platform 1030 ''{\"id\":\"1\",\"v\":10}'') shared_worker)
     = [PostMessage 1 (Data ''A'' [JObj [(''id'', JStr ''1''), (''v'', JNum 10)]] True),
        PostMessage 2 (Data ''A'' [JObj [(''id'', JStr ''1''), (''v'', JNum 10)]] True)]
   \<and> snd (handlePortMessage concrete_platform 1040 ''ef56'' ''port-1'' 1 (Disconnect ''d1'' ''A'')
            (fst (on_provider ''A'' (handleMessage concrete_platform 1030 ''{\"id\":\"1\",\"v\":10}'')
                    shared_worker)))
     = [Unsubscribe ''/snapshot/positions/stomp-1000-ab12'',
        Deactivate \<lparr> clientId = ''stomp-1000-ab12'',
                     listenerTopic = ''/snapshot/positions/stomp-1000-ab12'',
                     triggerDestination = ''/snapshot/positions/stomp-1000-ab12/1000'' \<rparr>,
        PostMessage 1 (Response ''d1'' Success_true)]
   \<and> providers (fst (handlePortMessage concrete_platform 1040 ''ef56'' ''port-1'' 1 (Disconnect ''d1'' ''A'')
            (fst (on_provider ''A'' (handleMessage concrete_platform 1030 ''{\"id\":\"1\",\"v\":10}'')
                    shared_worker)))) ''A'' = None
   \<and> snd (handlePortMessage concrete_platform 1050 ''gh78'' ''port-2'' 2 (GetSnapshot ''s1'' ''A'')
            (fst (handlePortMessage concrete_platform 1040 ''ef56'' ''port-1'' 1 (Disconnect ''d1'' ''A'')
               (fst (on_provider ''A'' (handleMessage concrete_platform 1030 ''{\"id\":\"1\",\"v\":10}'')
                       shared_worker)))))
     = [PostMessage 2 (Response ''s1'' (Data_body []))]"
  by code_simp

subsection \<open>Request and response correlation\<close>



lemma Map_get_None_iff: "Map_get m k = None \<longleftrightarrow> k \<notin> fst ` set m"
  by (induction m) (auto split: if_splits)




















end
